theory Spec2Isabelle
  imports Main
begin

section \<open>Python values, exceptions and strings\<close>

text \<open>
  Values that appear in the dictionaries the code builds (event payloads, response data,
  error details). \<open>PTime\<close> stands for the ISO-8601 rendering of a datetime
  (\<open>isoformat()\<close>), which determines the datetime.
\<close>

record datetime =
  ordinal :: int
  tod :: nat

datatype pyval = PNone | PBool bool | PInt int | PStr string | PList "string list"
  | PTime datetime

type_synonym pydict = "(string \<times> pyval) list"

text \<open>
  Exceptions as values. \<open>MCPToolError\<close> carries code, message and details as in
  \<open>app/mcp/base_tool.py\<close>; \<open>PublishError\<close> is whatever the Dapr client raises;
  \<open>StoreError\<close> is what the record store raises for a value it cannot take;
  \<open>UnboundLocalError n\<close> is what reading the local name \<open>n\<close> raises before the statement
  that binds it has run.
\<close>

datatype exn = OverflowError | ValueError | PublishError | StoreError
  | UnboundLocalError string
  | MCPToolError string string pydict

fun err_code :: "exn \<Rightarrow> string" where
  "err_code (MCPToolError c m d) = c"
| "err_code OverflowError = ''OverflowError''"
| "err_code ValueError = ''ValueError''"
| "err_code PublishError = ''PublishError''"
| "err_code StoreError = ''StoreError''"
| "err_code (UnboundLocalError n) = ''UnboundLocalError''"

fun err_message :: "exn \<Rightarrow> string" where
  "err_message (MCPToolError c m d) = m"
| "err_message e = []"

fun err_details :: "exn \<Rightarrow> pydict" where
  "err_details (MCPToolError c m d) = d"
| "err_details e = []"

text \<open>Python's \<open>sub in s\<close> on strings.\<close>

fun startswith :: "string \<Rightarrow> string \<Rightarrow> bool" where
  "startswith s [] = True"
| "startswith [] (p # ps) = False"
| "startswith (c # cs) (p # ps) = (c = p \<and> startswith cs ps)"

fun str_in :: "string \<Rightarrow> string \<Rightarrow> bool" where
  "str_in sub [] = (sub = [])"
| "str_in sub (c # cs) = (startswith (c # cs) sub \<or> str_in sub cs)"

text \<open>
  \<open>str.strip()\<close>: the characters for which \<open>str.isspace()\<close> holds, among the first 256
  code points.
\<close>

definition isspace :: "char \<Rightarrow> bool" where
  "isspace c = ((of_char c :: nat) \<in> {9, 10, 11, 12, 13, 28, 29, 30, 31, 32, 133, 160})"

definition strip :: "string \<Rightarrow> string" where
  "strip s = rev (dropWhile isspace (rev (dropWhile isspace s)))"

text \<open>\<open>str(n)\<close> for an integer, as the f-strings of the tools render a task id.\<close>

definition digit_char :: "nat \<Rightarrow> char" where
  "digit_char d =
     (if d = 0 then CHR ''0'' else if d = 1 then CHR ''1'' else if d = 2 then CHR ''2''
      else if d = 3 then CHR ''3'' else if d = 4 then CHR ''4'' else if d = 5 then CHR ''5''
      else if d = 6 then CHR ''6'' else if d = 7 then CHR ''7'' else if d = 8 then CHR ''8''
      else CHR ''9'')"

function str_nat :: "nat \<Rightarrow> string" where
  "str_nat n = (if n < 10 then [digit_char n] else str_nat (n div 10) @ [digit_char (n mod 10)])"
  by pat_completeness auto
termination
  by (relation "measure id") auto

declare str_nat.simps [simp del]

definition str_int :: "int \<Rightarrow> string" where
  "str_int i = (if i < 0 then CHR ''-'' # str_nat (nat (- i)) else str_nat (nat i))"


section \<open>Dates: the part of Python's \<open>datetime\<close> and \<open>calendar\<close> the code uses\<close>

text \<open>
  A datetime is a day number (the proleptic Gregorian ordinal, 1 = 0001-01-01, as
  \<open>toordinal()\<close>) and the microseconds since midnight. Year, month and day are read
  off the ordinal as \<open>datetime.py\<close> does in \<open>_ord2ymd\<close>; \<open>_ymd2ord\<close> builds an ordinal.
\<close>

definition MAXORDINAL :: int where
  "MAXORDINAL = 3652059"

definition valid_datetime :: "datetime \<Rightarrow> bool" where
  "valid_datetime t = (1 \<le> ordinal t \<and> ordinal t \<le> MAXORDINAL \<and> tod t < 86400000000)"

definition is_leap :: "int \<Rightarrow> bool" where
  "is_leap y = (y mod 4 = 0 \<and> (y mod 100 \<noteq> 0 \<or> y mod 400 = 0))"

definition mdays :: "int \<Rightarrow> int" where
  "mdays m = (if m = 2 then 28 else if m = 4 \<or> m = 6 \<or> m = 9 \<or> m = 11 then 30 else 31)"

definition days_in_month :: "int \<Rightarrow> int \<Rightarrow> int" where
  "days_in_month y m = (if m = 2 \<and> is_leap y then 29 else mdays m)"

definition DAYS_BEFORE_MONTH :: "int \<Rightarrow> int" where
  "DAYS_BEFORE_MONTH m =
     (if m = 1 then 0 else if m = 2 then 31 else if m = 3 then 59 else if m = 4 then 90
      else if m = 5 then 120 else if m = 6 then 151 else if m = 7 then 181
      else if m = 8 then 212 else if m = 9 then 243 else if m = 10 then 273
      else if m = 11 then 304 else 334)"

definition days_before_year :: "int \<Rightarrow> int" where
  "days_before_year year =
     (let y = year - 1 in y * 365 + y div 4 - y div 100 + y div 400)"

definition days_before_month :: "int \<Rightarrow> int \<Rightarrow> int" where
  "days_before_month year month =
     DAYS_BEFORE_MONTH month + (if month > 2 \<and> is_leap year then 1 else 0)"

definition ymd2ord :: "int \<Rightarrow> int \<Rightarrow> int \<Rightarrow> int" where
  "ymd2ord year month day = days_before_year year + days_before_month year month + day"

definition ord2ymd :: "int \<Rightarrow> int \<times> int \<times> int" where
  "ord2ymd ord =
     (let n0 = ord - 1;
          n400 = n0 div 146097; r400 = n0 mod 146097;
          n100 = r400 div 36524; r100 = r400 mod 36524;
          n4 = r100 div 1461; r4 = r100 mod 1461;
          n1 = r4 div 365; n = r4 mod 365;
          year = n400 * 400 + 1 + n100 * 100 + n4 * 4 + n1
      in if n1 = 4 \<or> n100 = 4 then (year - 1, 12, 31)
         else
           let leapyear = (n1 = 3 \<and> (n4 \<noteq> 24 \<or> n100 = 3));
               month = (n + 50) div 32;
               preceding = DAYS_BEFORE_MONTH month + (if month > 2 \<and> leapyear then 1 else 0)
           in if preceding > n
              then let month' = month - 1;
                       preceding' = preceding - (mdays month' + (if month' = 2 \<and> leapyear then 1 else 0))
                   in (year, month', n - preceding' + 1)
              else (year, month, n - preceding + 1))"

definition dt_year :: "datetime \<Rightarrow> int" where
  "dt_year t = fst (ord2ymd (ordinal t))"

definition dt_month :: "datetime \<Rightarrow> int" where
  "dt_month t = fst (snd (ord2ymd (ordinal t)))"

definition dt_day :: "datetime \<Rightarrow> int" where
  "dt_day t = snd (snd (ord2ymd (ordinal t)))"

text \<open>\<open>datetime(y, m, d, hh, mm, ss)\<close> for a date that exists.\<close>

definition mk_datetime :: "int \<Rightarrow> int \<Rightarrow> int \<Rightarrow> nat \<Rightarrow> nat \<Rightarrow> nat \<Rightarrow> datetime" where
  "mk_datetime y m d hh mi ss =
     \<lparr>ordinal = ymd2ord y m d, tod = ((hh * 60 + mi) * 60 + ss) * 1000000\<rparr>"

text \<open>\<open>t + timedelta(days=n)\<close>: OverflowError outside years 1..9999.\<close>

definition add_days :: "datetime \<Rightarrow> int \<Rightarrow> exn + datetime" where
  "add_days t n =
     (if 0 < ordinal t + n \<and> ordinal t + n \<le> MAXORDINAL
      then Inr (t\<lparr>ordinal := ordinal t + n\<rparr>) else Inl OverflowError)"

text \<open>\<open>t.weekday()\<close>: Monday is 0, Saturday 5, Sunday 6.\<close>

definition weekday :: "datetime \<Rightarrow> int" where
  "weekday t = (ordinal t + 6) mod 7"

text \<open>\<open>calendar.monthrange(year, month)[1]\<close>.\<close>

definition monthrange_days :: "int \<Rightarrow> int \<Rightarrow> int" where
  "monthrange_days year month = days_in_month year month"

text \<open>\<open>t.replace(year=y, month=m, day=d)\<close>: ValueError when the date does not exist.\<close>

definition replace_ymd :: "datetime \<Rightarrow> int \<Rightarrow> int \<Rightarrow> int \<Rightarrow> exn + datetime" where
  "replace_ymd t y m d =
     (if 1 \<le> y \<and> y \<le> 9999 \<and> 1 \<le> m \<and> m \<le> 12 \<and> 1 \<le> d \<and> d \<le> days_in_month y m
      then Inr (t\<lparr>ordinal := ymd2ord y m d\<rparr>) else Inl ValueError)"


section \<open>Recurrence calculator\<close>

text \<open>
  The loop of the \<open>every_weekday\<close> rule: step a day at a time while the weekday is
  Saturday or Sunday.
\<close>

function skip_weekend :: "datetime \<Rightarrow> exn + datetime" where
  "skip_weekend next_date =
     (if weekday next_date \<ge> 5
      then (case add_days next_date 1 of
              Inl e \<Rightarrow> Inl e
            | Inr d \<Rightarrow> skip_weekend d)
      else Inr next_date)"
  by pat_completeness auto
termination
proof (relation "measure (\<lambda>t. nat ((7 - weekday t) mod 7))")
  show "wf (measure (\<lambda>t. nat ((7 - weekday t) mod 7)))"
    by simp
next
  fix next_date d
  assume w: "5 \<le> weekday next_date" and a: "add_days next_date 1 = Inr d"
  from a have o: "ordinal d = ordinal next_date + 1"
    by (auto simp: add_days_def split: if_splits)
  have "weekday next_date < 7"
    by (simp add: weekday_def)
  with w have "weekday next_date = 5 \<or> weekday next_date = 6"
    by arith
  then show "(d, next_date) \<in> measure (\<lambda>t. nat ((7 - weekday t) mod 7))"
    using o unfolding weekday_def in_measure by auto presburger+
qed

declare skip_weekend.simps [simp del]

text \<open>
  \<open>RecurringTaskService.calculate_next_occurrence\<close>. \<open>recurrence\<close> and
  \<open>recurrence_rule\<close> are optional strings; the result is \<open>Inr None\<close> where the code
  returns \<open>None\<close> and \<open>Inl\<close> where the date arithmetic raises.
\<close>

definition calculate_next_occurrence ::
  "string option \<Rightarrow> string option \<Rightarrow> datetime \<Rightarrow> exn + datetime option" where
  "calculate_next_occurrence recurrence recurrence_rule last_completion =
     (if recurrence = None \<or> recurrence = Some [] then Inr None
      else if recurrence = Some ''daily'' then map_sum id Some (add_days last_completion 1)
      else if recurrence = Some ''weekly'' then map_sum id Some (add_days last_completion 7)
      else if recurrence = Some ''monthly'' then
        (let next_month = dt_month last_completion + 1;
             next_year = dt_year last_completion;
             (next_month, next_year) =
                (if next_month > 12 then (1, next_year + 1) else (next_month, next_year)) in
         let max_day = monthrange_days next_year next_month;
             next_day = min (dt_day last_completion) max_day
         in map_sum id Some (replace_ymd last_completion next_year next_month next_day))
      else if recurrence = Some ''custom'' \<and> recurrence_rule \<noteq> None \<and> recurrence_rule \<noteq> Some [] then
        (if str_in ''every_2_days'' (the recurrence_rule)
         then map_sum id Some (add_days last_completion 2)
         else if str_in ''every_weekday'' (the recurrence_rule)
         then (case add_days last_completion 1 of
                 Inl e \<Rightarrow> Inl e
               | Inr next_date \<Rightarrow> map_sum id Some (skip_weekend next_date))
         else Inr None)
      else Inr None)"


section \<open>Tasks and the record store\<close>

text \<open>
  The \<open>Task\<close> entity of \<open>app/models/task.py\<close>. \<open>tid\<close> is the primary key \<open>id\<close>
  (\<open>None\<close> until the row is inserted); \<open>tags\<close> is the ordered sequence of strings the
  entity exposes through \<open>tags_serialized\<close>.
\<close>

record task =
  tid :: "int option"
  user_id :: string
  title :: string
  description :: "string option"
  completed :: bool
  created_at :: datetime
  updated_at :: datetime
  priority :: string
  due_date :: "datetime option"
  tags :: "string list"
  recurrence :: "string option"
  recurrence_rule :: "string option"
  next_occurrence :: "datetime option"

text \<open>The task table: its rows in insertion order and the next primary key.\<close>

record store =
  tasks :: "task list"
  next_id :: int

text \<open>\<open>session.add(new); session.commit(); session.refresh(new)\<close> for a new row.\<close>

definition session_add_new :: "task \<Rightarrow> 'a store_scheme \<Rightarrow> task \<times> 'a store_scheme" where
  "session_add_new t s =
     (let t' = t\<lparr>tid := Some (next_id s)\<rparr>
      in (t', s\<lparr>tasks := tasks s @ [t'], next_id := next_id s + 1\<rparr>))"

text \<open>Committing a changed row: the row with that primary key is replaced.\<close>

definition session_update :: "task \<Rightarrow> 'a store_scheme \<Rightarrow> 'a store_scheme" where
  "session_update t s = s\<lparr>tasks := map (\<lambda>r. if tid r = tid t then t else r) (tasks s)\<rparr>"

text \<open>\<open>select(Task).where(Task.id == task_id)\<close>, \<open>.first()\<close>.\<close>

definition select_by_id :: "int \<Rightarrow> 'a store_scheme \<Rightarrow> task option" where
  "select_by_id task_id s = find (\<lambda>r. tid r = Some task_id) (tasks s)"


section \<open>The event bus\<close>

text \<open>
  An event handed to the Dapr client: topic, type and payload (the envelope's random
  \<open>event_id\<close>, its timestamp and its source are left out). \<open>dapr_script\<close> fixes the
  outcome of each successive call of the client's \<open>publish_event\<close>: \<open>True\<close> accepts the
  event, \<open>False\<close> raises; an exhausted script accepts.
\<close>

record event =
  topic :: string
  event_type :: string
  payload :: pydict

record world = store +
  dapr_available :: bool
  dapr_script :: "bool list"
  bus :: "event list"

definition dapr_client_publish :: "event \<Rightarrow> world \<Rightarrow> bool \<times> world" where
  "dapr_client_publish ev w =
     (case dapr_script w of
        [] \<Rightarrow> (True, w\<lparr>bus := bus w @ [ev]\<rparr>)
      | ok # rest \<Rightarrow>
          if ok then (True, w\<lparr>dapr_script := rest, bus := bus w @ [ev]\<rparr>)
          else (False, w\<lparr>dapr_script := rest\<rparr>))"

text \<open>
  \<open>DaprEventPublisher.publish_event\<close>: in development mode (no Dapr) the event is only
  logged and the call succeeds; otherwise a failure of the client is raised again.
\<close>

definition publish_event :: "string \<Rightarrow> string \<Rightarrow> pydict \<Rightarrow> world \<Rightarrow> (exn + unit) \<times> world" where
  "publish_event topic' event_type' data w =
     (if \<not> dapr_available w then (Inr (), w)
      else case dapr_client_publish \<lparr>topic = topic', event_type = event_type', payload = data\<rparr> w of
             (True, w') \<Rightarrow> (Inr (), w')
           | (False, w') \<Rightarrow> (Inl PublishError, w'))"

definition publish_task_created :: "pydict \<Rightarrow> world \<Rightarrow> (exn + unit) \<times> world" where
  "publish_task_created task_data = publish_event ''task-events'' ''task.created'' task_data"

definition publish_task_completed :: "pydict \<Rightarrow> world \<Rightarrow> (exn + unit) \<times> world" where
  "publish_task_completed task_data = publish_event ''task-events'' ''task.completed'' task_data"

definition publish_task_deleted :: "pydict \<Rightarrow> world \<Rightarrow> (exn + unit) \<times> world" where
  "publish_task_deleted task_data = publish_event ''task-events'' ''task.deleted'' task_data"

definition publish_reminder_scheduled :: "pydict \<Rightarrow> world \<Rightarrow> (exn + unit) \<times> world" where
  "publish_reminder_scheduled reminder_data =
     publish_event ''reminders'' ''task.due_scheduled'' reminder_data"


section \<open>Recurrence projection\<close>

text \<open>
  \<open>RecurringTaskService.create_next_occurrence\<close>. \<open>utcnow k\<close> is the reading of the clock
  at the \<open>k\<close>-th call of \<open>datetime.utcnow()\<close> in the function.
\<close>

definition create_next_occurrence ::
  "(nat \<Rightarrow> datetime) \<Rightarrow> task \<Rightarrow> 'a store_scheme \<Rightarrow> (exn + task option) \<times> 'a store_scheme" where
  "create_next_occurrence utcnow completed_task s =
     (if recurrence completed_task = None \<or> recurrence completed_task = Some [] then (Inr None, s)
      else
        case calculate_next_occurrence (recurrence completed_task)
               (recurrence_rule completed_task) (utcnow 0) of
          Inl e \<Rightarrow> (Inl e, s)
        | Inr None \<Rightarrow> (Inr None, s)
        | Inr (Some next_occurrence') \<Rightarrow>
            let new_task = \<lparr>tid = None,
                  user_id = user_id completed_task,
                  title = title completed_task,
                  description = description completed_task,
                  completed = False,
                  created_at = utcnow 1,
                  updated_at = utcnow 2,
                  priority = priority completed_task,
                  due_date = Some next_occurrence',
                  tags = tags completed_task,
                  recurrence = recurrence completed_task,
                  recurrence_rule = recurrence_rule completed_task,
                  next_occurrence = None\<rparr>;
                (new_task', s') = session_add_new new_task s
            in (Inr (Some new_task'), s'))"

text \<open>
  \<open>RecurringTaskService.prevent_duplicate_creation\<close> of the recurring-task service.
  \<open>existing_tasks\<close> is what its query returns (the query compares the text column
  \<open>user_id\<close> with the integer \<open>task_id\<close>, which the database decides); the loop then
  compares each title, a string, with \<open>task_id\<close>, an integer.
\<close>

definition prevent_duplicate_creation :: "task list \<Rightarrow> int \<Rightarrow> string \<Rightarrow> datetime \<Rightarrow> bool" where
  "prevent_duplicate_creation existing_tasks task_id recurrence' next_occurrence' =
     (\<not> list_ex (\<lambda>task. PStr (title task) = PInt task_id \<and> recurrence task = Some recurrence')
          existing_tasks)"

text \<open>
  \<open>RecurringTaskService.process_task_completed_event\<close> (\<open>app/services\<close>): the handler of
  a delivered \<open>task.completed\<close> event with payload \<open>{id, user_id}\<close>. Every exception is
  caught and gives \<open>False\<close>; a failure to publish the follow-up event is only logged.
\<close>

definition process_task_completed_event ::
  "(nat \<Rightarrow> datetime) \<Rightarrow> int option \<Rightarrow> string option \<Rightarrow> world \<Rightarrow> bool \<times> world" where
  "process_task_completed_event utcnow task_id uid w =
     (if task_id = None \<or> task_id = Some 0 then (False, w)
      else
        case find (\<lambda>r. tid r = task_id \<and> Some (user_id r) = uid) (tasks w) of
          None \<Rightarrow> (False, w)
        | Some task \<Rightarrow>
            if recurrence task = None \<or> recurrence task = Some [] then (False, w)
            else
              case create_next_occurrence utcnow task w of
                (Inl e, w') \<Rightarrow> (False, w')
              | (Inr None, w') \<Rightarrow> (False, w')
              | (Inr (Some next_task), w') \<Rightarrow>
                  if dapr_available w'
                  then (True, snd (dapr_client_publish
                          \<lparr>topic = ''task-events'', event_type = ''task.created'',
                           payload = [(''id'', case tid next_task of None \<Rightarrow> PNone | Some i \<Rightarrow> PInt i),
                                      (''user_id'', PStr (user_id next_task)),
                                      (''title'', PStr (title next_task)),
                                      (''due_date'', case due_date next_task of
                                                       None \<Rightarrow> PNone | Some d \<Rightarrow> PTime d)]\<rparr> w'))
                  else (True, w'))"


section \<open>Notification delivery\<close>

text \<open>The \<open>Notification\<close> entity of the notification service and its table.\<close>

record notification =
  nid :: "int option"
  n_task_id :: int
  n_user_id :: string
  scheduled_time :: datetime
  sent_time :: "datetime option"
  status :: string
  delivery_attempts :: int
  channel :: string
  message_content :: string
  n_created_at :: datetime
  n_updated_at :: datetime

record nstore =
  notifications :: "notification list"
  next_nid :: int

text \<open>\<open>due_date.replace('Z', '+00:00')\<close>.\<close>

definition replace_Z :: "string \<Rightarrow> string" where
  "replace_Z s = concat (map (\<lambda>c. if c = CHR ''Z'' then ''+00:00'' else [c]) s)"

text \<open>
  \<open>NotificationService.send_notification\<close>. \<open>fromisoformat\<close> is
  \<open>datetime.fromisoformat\<close>, \<open>None\<close> where it raises ValueError; no channel provider is
  called. \<open>utcnow k\<close> is the clock at the \<open>k\<close>-th place the code reads it.
\<close>

definition send_notification ::
  "(string \<Rightarrow> datetime option) \<Rightarrow> (nat \<Rightarrow> datetime) \<Rightarrow> string \<Rightarrow> int \<Rightarrow> string
     \<Rightarrow> string option \<Rightarrow> string \<Rightarrow> string \<Rightarrow> nstore \<Rightarrow> (exn + notification) \<times> nstore" where
  "send_notification fromisoformat utcnow uid task_id title' due_date' message channel' ns =
     (case (if due_date' \<noteq> None \<and> due_date' \<noteq> Some []
            then fromisoformat (replace_Z (the due_date')) else Some (utcnow 0)) of
        None \<Rightarrow> (Inl ValueError, ns)
      | Some scheduled \<Rightarrow>
          let n = \<lparr>nid = Some (next_nid ns),
                   n_task_id = task_id,
                   n_user_id = uid,
                   scheduled_time = scheduled,
                   sent_time = Some (utcnow 1),
                   status = ''sent'',
                   delivery_attempts = 1,
                   channel = channel',
                   message_content = message,
                   n_created_at = utcnow 2,
                   n_updated_at = utcnow 3\<rparr>
          in (Inr n, ns\<lparr>notifications := notifications ns @ [n], next_nid := next_nid ns + 1\<rparr>))"

text \<open>
  \<open>ReminderConsumer.send_notification\<close> builds the same row and returns nothing.
\<close>

definition reminder_consumer_send_notification ::
  "(string \<Rightarrow> datetime option) \<Rightarrow> (nat \<Rightarrow> datetime) \<Rightarrow> string \<Rightarrow> int \<Rightarrow> string
     \<Rightarrow> string option \<Rightarrow> string \<Rightarrow> string \<Rightarrow> nstore \<Rightarrow> (exn + unit) \<times> nstore" where
  "reminder_consumer_send_notification fromisoformat utcnow uid task_id title' due_date' message
       channel' ns =
     (case (if due_date' \<noteq> None \<and> due_date' \<noteq> Some []
            then fromisoformat (replace_Z (the due_date')) else Some (utcnow 0)) of
        None \<Rightarrow> (Inl ValueError, ns)
      | Some scheduled \<Rightarrow>
          (Inr (), ns\<lparr>notifications := notifications ns @
                        [\<lparr>nid = Some (next_nid ns),
                          n_task_id = task_id,
                          n_user_id = uid,
                          scheduled_time = scheduled,
                          sent_time = Some (utcnow 1),
                          status = ''sent'',
                          delivery_attempts = 1,
                          channel = channel',
                          message_content = message,
                          n_created_at = utcnow 2,
                          n_updated_at = utcnow 3\<rparr>],
                    next_nid := next_nid ns + 1\<rparr>))"

text \<open>\<open>NotificationService.record_delivery_failure\<close>; \<open>None\<close> when the id is unknown.\<close>

definition record_delivery_failure :: "int \<Rightarrow> string \<Rightarrow> nstore \<Rightarrow> notification option \<times> nstore" where
  "record_delivery_failure notification_id error_details ns =
     (case find (\<lambda>r. nid r = Some notification_id) (notifications ns) of
        None \<Rightarrow> (None, ns)
      | Some n \<Rightarrow>
          let n' = n\<lparr>status := ''failed'', delivery_attempts := delivery_attempts n + 1\<rparr>
          in (Some n', ns\<lparr>notifications :=
                 map (\<lambda>r. if nid r = nid n' then n' else r) (notifications ns)\<rparr>))"

definition get_failed_notifications :: "nstore \<Rightarrow> notification list" where
  "get_failed_notifications ns = filter (\<lambda>n. status n = ''failed'') (notifications ns)"

text \<open>\<open>session.add(n); session.commit()\<close> for a row read earlier: merged by primary key.\<close>

definition session_merge :: "notification \<Rightarrow> nstore \<Rightarrow> nstore" where
  "session_merge n ns =
     ns\<lparr>notifications := map (\<lambda>r. if nid r = nid n then n else r) (notifications ns)\<rparr>"

text \<open>The loop of \<open>retry_failed_notifications\<close> over the rows read at its start.\<close>

fun retry_loop :: "notification list \<Rightarrow> nstore \<Rightarrow> int \<Rightarrow> int \<times> nstore" where
  "retry_loop [] ns retry_count = (retry_count, ns)"
| "retry_loop (n # rest) ns retry_count =
     (if delivery_attempts n < 3
      then retry_loop rest
             (session_merge (n\<lparr>delivery_attempts := delivery_attempts n + 1\<rparr>) ns)
             (retry_count + 1)
      else retry_loop rest ns retry_count)"

definition retry_failed_notifications :: "nstore \<Rightarrow> int \<times> nstore" where
  "retry_failed_notifications ns = retry_loop (get_failed_notifications ns) ns 0"

text \<open>What one pass of the retry does to a single row (the loop is shown to do this below).\<close>

definition retry_row :: "notification \<Rightarrow> notification" where
  "retry_row r = (if status r = ''failed'' \<and> delivery_attempts r < 3
                  then r\<lparr>delivery_attempts := delivery_attempts r + 1\<rparr> else r)"


section \<open>The MCP tools\<close>

text \<open>The dictionary \<open>create_success_response\<close> builds.\<close>

record response =
  success :: bool
  data :: pydict
  message :: "string option"

definition create_success_response :: "pydict \<Rightarrow> string \<Rightarrow> response" where
  "create_success_response data' message' =
     \<lparr>success = True, data = data', message = (if message' \<noteq> [] then Some message' else None)\<rparr>"

definition opt_str :: "string option \<Rightarrow> pyval" where
  "opt_str x = (case x of None \<Rightarrow> PNone | Some v \<Rightarrow> PStr v)"

definition opt_time :: "datetime option \<Rightarrow> pyval" where
  "opt_time x = (case x of None \<Rightarrow> PNone | Some d \<Rightarrow> PTime d)"

definition opt_int :: "int option \<Rightarrow> pyval" where
  "opt_int x = (case x of None \<Rightarrow> PNone | Some i \<Rightarrow> PInt i)"

text \<open>The response data the fallback paths build from a stored task.\<close>

definition task_response_data :: "task \<Rightarrow> pydict" where
  "task_response_data t =
     [(''id'', opt_int (tid t)),
      (''user_id'', PStr (user_id t)),
      (''title'', PStr (title t)),
      (''description'', opt_str (description t)),
      (''completed'', PBool (completed t)),
      (''created_at'', PTime (created_at t)),
      (''updated_at'', PTime (updated_at t)),
      (''priority'', PStr (priority t)),
      (''due_date'', opt_time (due_date t)),
      (''tags'', PList (tags t)),
      (''recurrence'', opt_str (recurrence t)),
      (''recurrence_rule'', opt_str (recurrence_rule t)),
      (''next_occurrence'', opt_time (next_occurrence t))]"

text \<open>\<open>BaseMCPTool.validate_user_id\<close> and \<open>BaseMCPTool.validate_ownership\<close>.\<close>

definition validate_user_id :: "string \<Rightarrow> exn + unit" where
  "validate_user_id uid =
     (if uid = [] then Inl (MCPToolError ''UNAUTHORIZED'' ''Invalid or missing user_id''
                              [(''field'', PStr ''user_id'')])
      else Inr ())"

definition validate_ownership :: "string \<Rightarrow> string \<Rightarrow> exn + unit" where
  "validate_ownership resource_user_id requesting_user_id =
     (if resource_user_id \<noteq> requesting_user_id
      then Inl (MCPToolError ''NOT_FOUND'' ''Resource not found'' [])
      else Inr ())"

definition task_not_found :: "int \<Rightarrow> exn" where
  "task_not_found task_id =
     MCPToolError ''NOT_FOUND'' (''Task '' @ str_int task_id @ '' not found'')
       [(''task_id'', PInt task_id)]"

definition quoted :: "string \<Rightarrow> string" where
  "quoted s = CHR 0x27 # s @ [CHR 0x27]"

subsection \<open>\<open>AddTaskTool.execute\<close>\<close>

text \<open>
  The direct write of the \<open>except\<close> branch. The timestamp column takes the due date,
  which the tool passes as the string it received: \<open>coerce\<close> is the store's reading of
  such a string, \<open>None\<close> where the store rejects it.
\<close>

definition add_task_fallback ::
  "(string \<Rightarrow> datetime option) \<Rightarrow> (nat \<Rightarrow> datetime) \<Rightarrow> string \<Rightarrow> string \<Rightarrow> string option
     \<Rightarrow> string \<Rightarrow> string option \<Rightarrow> string list option \<Rightarrow> string option \<Rightarrow> string option
     \<Rightarrow> world \<Rightarrow> (exn + response) \<times> world" where
  "add_task_fallback coerce utcnow uid title' description' priority' due_date' tags'
       recurrence' recurrence_rule' w =
     (case (case due_date' of None \<Rightarrow> Some None | Some d \<Rightarrow> map_option Some (coerce d)) of
        None \<Rightarrow> (Inl StoreError, w)
      | Some due \<Rightarrow>
          let new_task = \<lparr>tid = None,
                user_id = uid,
                title = strip title',
                description = (case description' of None \<Rightarrow> None
                                | Some d \<Rightarrow> if d \<noteq> [] then Some (strip d) else Some d),
                completed = False,
                created_at = utcnow 2,
                updated_at = utcnow 3,
                priority = priority',
                due_date = due,
                tags = (case tags' of None \<Rightarrow> [] | Some ts \<Rightarrow> ts),
                recurrence = recurrence',
                recurrence_rule = recurrence_rule',
                next_occurrence = None\<rparr>;
              (new_task', w') = session_add_new new_task w
          in (Inr (create_success_response (task_response_data new_task')
                     (''Task '' @ quoted title' @ '' created successfully'')), w'))"

definition add_task ::
  "(string \<Rightarrow> datetime option) \<Rightarrow> (nat \<Rightarrow> datetime) \<Rightarrow> string \<Rightarrow> string \<Rightarrow> string option
     \<Rightarrow> string \<Rightarrow> string option \<Rightarrow> string list option \<Rightarrow> string option \<Rightarrow> string option
     \<Rightarrow> world \<Rightarrow> (exn + response) \<times> world" where
  "add_task coerce utcnow uid title' description' priority' due_date' tags'
       recurrence' recurrence_rule' w =
     (case validate_user_id uid of
        Inl e \<Rightarrow> (Inl e, w)
      | Inr _ \<Rightarrow>
        if title' = [] \<or> strip title' = []
        then (Inl (MCPToolError ''VALIDATION_ERROR'' ''Task title cannot be empty''
                     [(''field'', PStr ''title'')]), w)
        else if priority' \<notin> set [''high'', ''medium'', ''low'']
        then (Inl (MCPToolError ''VALIDATION_ERROR'' ''Priority must be one of: high, medium, low''
                     [(''field'', PStr ''priority'')]), w)
        else if tags' \<noteq> None \<and> tags' \<noteq> Some [] \<and> length (the tags') > 10
        then (Inl (MCPToolError ''VALIDATION_ERROR'' ''Maximum 10 tags per task allowed''
                     [(''field'', PStr ''tags'')]), w)
        else if tags' \<noteq> None \<and> tags' \<noteq> Some [] \<and> list_ex (\<lambda>tag. length tag > 20) (the tags')
        then (Inl (MCPToolError ''VALIDATION_ERROR''
                     ''Each tag must be a string of max 20 characters''
                     [(''field'', PStr ''tags'')]), w)
        else
          let task_data =
                [(''user_id'', PStr uid),
                 (''title'', PStr (strip title')),
                 (''description'', (case description' of None \<Rightarrow> PNone
                                     | Some d \<Rightarrow> if d \<noteq> [] then PStr (strip d) else PStr d)),
                 (''completed'', PBool False),
                 (''created_at'', PTime (utcnow 0)),
                 (''updated_at'', PTime (utcnow 1)),
                 (''priority'', PStr priority'),
                 (''due_date'', opt_str due_date'),
                 (''tags'', PList (case tags' of None \<Rightarrow> [] | Some ts \<Rightarrow> ts)),
                 (''recurrence'', opt_str recurrence'),
                 (''recurrence_rule'', opt_str recurrence_rule'),
                 (''next_occurrence'', PNone)];
              fallback = add_task_fallback coerce utcnow uid title' description' priority'
                           due_date' tags' recurrence' recurrence_rule'
          in case publish_task_created task_data w of
               (Inl e, w1) \<Rightarrow> fallback w1
             | (Inr _, w1) \<Rightarrow>
                 (case (if due_date' \<noteq> None \<and> due_date' \<noteq> Some []
                        then publish_reminder_scheduled
                               [(''task_id'', PNone), (''user_id'', PStr uid),
                                (''due_date'', opt_str due_date'),
                                (''title'', PStr (strip title'))] w1
                        else (Inr (), w1)) of
                    (Inl e, w2) \<Rightarrow> fallback w2
                  | (Inr _, w2) \<Rightarrow>
                      (Inr (create_success_response ((''id'', PNone) # task_data)
                              (''Task '' @ quoted title' @ '' creation requested'')), w2)))"

subsection \<open>\<open>CompleteTaskTool.execute\<close>\<close>

definition complete_task_fallback ::
  "(nat \<Rightarrow> datetime) \<Rightarrow> string \<Rightarrow> int \<Rightarrow> world \<Rightarrow> (exn + response) \<times> world" where
  "complete_task_fallback utcnow uid task_id w =
     (case select_by_id task_id w of
        None \<Rightarrow> (Inl (task_not_found task_id), w)
      | Some task \<Rightarrow>
          (case validate_ownership (user_id task) uid of
             Inl e \<Rightarrow> (Inl e, w)
           | Inr _ \<Rightarrow>
               let task' = task\<lparr>completed := True, updated_at := utcnow 0\<rparr>
               in (Inr (create_success_response (task_response_data task')
                          (''Task '' @ quoted (title task') @ '' marked as completed'')),
                   session_update task' w)))"

definition complete_task ::
  "(nat \<Rightarrow> datetime) \<Rightarrow> string \<Rightarrow> int \<Rightarrow> world \<Rightarrow> (exn + response) \<times> world" where
  "complete_task utcnow uid task_id w =
     (case validate_user_id uid of
        Inl e \<Rightarrow> (Inl e, w)
      | Inr _ \<Rightarrow>
          (case publish_task_completed [(''id'', PInt task_id), (''user_id'', PStr uid)] w of
             (Inr _, w1) \<Rightarrow>
               (Inr (create_success_response [(''id'', PInt task_id), (''user_id'', PStr uid)]
                       (''Task '' @ str_int task_id @ '' completion requested'')), w1)
           | (Inl e, w1) \<Rightarrow> complete_task_fallback utcnow uid task_id w1))"

subsection \<open>\<open>DeleteTaskTool.execute\<close>\<close>

text \<open>
  The body of \<open>execute\<close> imports \<open>select\<close> inside its inner \<open>except\<close> block
  (\<open>from sqlmodel import Session, select\<close>, line 79), which makes \<open>select\<close> a local
  name of the whole function. The first statement of the outer \<open>try\<close>,
  \<open>statement = select(Task).where(Task.id == task_id)\<close> (line 42), reads that local
  name before any import has bound it and raises UnboundLocalError. The handler
  \<open>except Exception as e\<close> rolls the session back, where nothing is pending, and raises
  \<open>INTERNAL_ERROR\<close> with \<open>str(e)\<close> in the details. So after the check of the user id
  no statement that reads the store, publishes or deletes is reached. \<open>str_exn\<close> is
  Python's \<open>str\<close> of an exception.
\<close>

definition delete_task ::
  "(exn \<Rightarrow> string) \<Rightarrow> string \<Rightarrow> int \<Rightarrow> world \<Rightarrow> (exn + response) \<times> world" where
  "delete_task str_exn uid task_id w =
     (case validate_user_id uid of
        Inl e \<Rightarrow> (Inl e, w)
      | Inr _ \<Rightarrow>
          (Inl (MCPToolError ''INTERNAL_ERROR'' ''Failed to delete task''
                  [(''error'', PStr (str_exn (UnboundLocalError ''select'')))]), w))"

subsection \<open>\<open>ViewTaskTool.execute\<close>\<close>

definition view_task :: "string \<Rightarrow> int \<Rightarrow> 'a store_scheme \<Rightarrow> exn + response" where
  "view_task uid task_id s =
     (case validate_user_id uid of
        Inl e \<Rightarrow> Inl e
      | Inr _ \<Rightarrow>
          (case select_by_id task_id s of
             None \<Rightarrow> Inl (task_not_found task_id)
           | Some task \<Rightarrow>
               (case validate_ownership (user_id task) uid of
                  Inl e \<Rightarrow> Inl e
                | Inr _ \<Rightarrow>
                    Inr (create_success_response
                           [(''id'', opt_int (tid task)),
                            (''user_id'', PStr (user_id task)),
                            (''title'', PStr (title task)),
                            (''description'', opt_str (description task)),
                            (''completed'', PBool (completed task)),
                            (''created_at'', PTime (created_at task)),
                            (''updated_at'', PTime (updated_at task))]
                           (''Here are the details for task '' @ str_int task_id)))))"


section \<open>\<open>TaskService\<close>\<close>

definition get_by_id :: "int \<Rightarrow> string \<Rightarrow> 'a store_scheme \<Rightarrow> task option" where
  "get_by_id task_id uid s = find (\<lambda>r. tid r = Some task_id \<and> user_id r = uid) (tasks s)"

text \<open>
  \<open>TaskService.create_advanced\<close>: a priority outside the three values becomes
  \<open>medium\<close>, a due date that does not parse is dropped, and the task is stored.
\<close>

definition create_advanced ::
  "(string \<Rightarrow> datetime option) \<Rightarrow> (nat \<Rightarrow> datetime) \<Rightarrow> string \<Rightarrow> string \<Rightarrow> string option
     \<Rightarrow> string \<Rightarrow> string option \<Rightarrow> string list option \<Rightarrow> string option \<Rightarrow> string option
     \<Rightarrow> 'a store_scheme \<Rightarrow> task \<times> 'a store_scheme" where
  "create_advanced fromisoformat utcnow uid title' description' priority' due_date' tags'
       recurrence' recurrence_rule' s =
     (let priority'' = (if priority' \<notin> set [''high'', ''medium'', ''low'']
                        then ''medium'' else priority');
          due_datetime = (if due_date' \<noteq> None \<and> due_date' \<noteq> Some []
                          then fromisoformat (replace_Z (the due_date')) else None);
          task = \<lparr>tid = None,
                  user_id = uid,
                  title = title',
                  description = description',
                  completed = False,
                  created_at = utcnow 0,
                  updated_at = utcnow 1,
                  priority = priority'',
                  due_date = due_datetime,
                  tags = (case tags' of None \<Rightarrow> [] | Some ts \<Rightarrow> ts),
                  recurrence = recurrence',
                  recurrence_rule = recurrence_rule',
                  next_occurrence = None\<rparr>
      in session_add_new task s)"

definition toggle_complete ::
  "(nat \<Rightarrow> datetime) \<Rightarrow> int \<Rightarrow> string \<Rightarrow> 'a store_scheme \<Rightarrow> task option \<times> 'a store_scheme" where
  "toggle_complete utcnow task_id uid s =
     (case get_by_id task_id uid s of
        None \<Rightarrow> (None, s)
      | Some task \<Rightarrow>
          let task' = task\<lparr>completed := \<not> completed task, updated_at := utcnow 0\<rparr>
          in (Some task', session_update task' s))"


section \<open>Example data\<close>

text \<open>A completed monthly task due on 2026-01-31, and two readings of the clock.\<close>

definition pay_rent :: task where
  "pay_rent = \<lparr>tid = Some 1, user_id = ''u1'', title = ''Pay rent'', description = None,
      completed = True, created_at = mk_datetime 2026 1 1 8 0 0,
      updated_at = mk_datetime 2026 1 31 0 0 0, priority = ''medium'',
      due_date = Some (mk_datetime 2026 1 31 0 0 0), tags = [],
      recurrence = Some ''monthly'', recurrence_rule = None, next_occurrence = None\<rparr>"

definition rent_store :: store where
  "rent_store = \<lparr>tasks = [pay_rent], next_id = 2\<rparr>"

definition clock_mar15 :: "nat \<Rightarrow> datetime" where
  "clock_mar15 k = mk_datetime 2026 3 15 9 30 0"

definition clock_jan31 :: "nat \<Rightarrow> datetime" where
  "clock_jan31 k = mk_datetime 2026 1 31 0 0 0"


text \<open>A completed daily task and a world that holds it (development mode, no Dapr).\<close>

definition standup :: task where
  "standup = \<lparr>tid = Some 1, user_id = ''u1'', title = ''Standup'', description = None,
      completed = True, created_at = mk_datetime 2026 3 1 8 0 0,
      updated_at = mk_datetime 2026 3 15 9 0 0, priority = ''high'',
      due_date = Some (mk_datetime 2026 3 15 9 0 0), tags = [''work''],
      recurrence = Some ''daily'', recurrence_rule = None, next_occurrence = None\<rparr>"

definition standup_world :: world where
  "standup_world = \<lparr>tasks = [standup], next_id = 2, dapr_available = False,
      dapr_script = [], bus = []\<rparr>"


text \<open>Two failed notifications, one of them at the attempt ceiling; an ISO parser for one string.\<close>

definition dead_letter :: notification where
  "dead_letter = \<lparr>nid = Some 1, n_task_id = 1, n_user_id = ''u1'',
      scheduled_time = mk_datetime 2026 3 15 9 0 0, sent_time = None, status = ''failed'',
      delivery_attempts = 3, channel = ''push'', message_content = ''Standup is due'',
      n_created_at = mk_datetime 2026 3 15 8 0 0, n_updated_at = mk_datetime 2026 3 15 9 0 0\<rparr>"

definition retryable :: notification where
  "retryable = \<lparr>nid = Some 2, n_task_id = 1, n_user_id = ''u1'',
      scheduled_time = mk_datetime 2026 3 16 9 0 0, sent_time = None, status = ''failed'',
      delivery_attempts = 1, channel = ''email'', message_content = ''Standup is due'',
      n_created_at = mk_datetime 2026 3 16 8 0 0, n_updated_at = mk_datetime 2026 3 16 9 0 0\<rparr>"

definition failed_store :: nstore where
  "failed_store = \<lparr>notifications = [dead_letter, retryable], next_nid = 3\<rparr>"

definition empty_nstore :: nstore where
  "empty_nstore = \<lparr>notifications = [], next_nid = 1\<rparr>"

definition iso_jan31 :: "string \<Rightarrow> datetime option" where
  "iso_jan31 s = (if s = ''2026-01-31T00:00:00+00:00'' then Some (mk_datetime 2026 1 31 0 0 0)
                  else None)"


text \<open>A task of user B and the same store without it.\<close>

definition bobs_task :: task where
  "bobs_task = \<lparr>tid = Some 42, user_id = ''userB'', title = ''Buy gift'', description = None,
      completed = False, created_at = mk_datetime 2026 3 1 8 0 0,
      updated_at = mk_datetime 2026 3 1 8 0 0, priority = ''low'',
      due_date = None, tags = [], recurrence = None, recurrence_rule = None,
      next_occurrence = None\<rparr>"

definition bobs_store :: store where
  "bobs_store = \<lparr>tasks = [bobs_task], next_id = 43\<rparr>"

definition empty_store :: store where
  "empty_store = \<lparr>tasks = [], next_id = 43\<rparr>"

text \<open>
  A bus that accepts the first event and fails on the second; two worlds holding the
  rent task, one whose bus refuses the next event and one whose bus accepts it; a
  store's reading of one timestamp string.
\<close>

definition partial_bus_world :: world where
  "partial_bus_world = \<lparr>tasks = [], next_id = 1, dapr_available = True,
      dapr_script = [True, False], bus = []\<rparr>"

definition rent_world_bus_down :: world where
  "rent_world_bus_down = \<lparr>tasks = [pay_rent], next_id = 2, dapr_available = True,
      dapr_script = [False], bus = []\<rparr>"

definition rent_world_bus_up :: world where
  "rent_world_bus_up = \<lparr>tasks = [pay_rent], next_id = 2, dapr_available = True,
      dapr_script = [True], bus = []\<rparr>"

definition store_reads_jan31 :: "string \<Rightarrow> datetime option" where
  "store_reads_jan31 s = (if s = ''2026-01-31T00:00:00Z'' then Some (mk_datetime 2026 1 31 0 0 0)
                          else None)"


section \<open>Properties of the recurrence calculator\<close>

lemmas cal_defs = mk_datetime_def ymd2ord_def days_before_year_def days_before_month_def
  DAYS_BEFORE_MONTH_def is_leap_def dt_month_def dt_year_def dt_day_def ord2ymd_def
  monthrange_days_def days_in_month_def mdays_def replace_ymd_def

lemma skip_weekend_weekday: "weekday t < 5 \<Longrightarrow> skip_weekend t = Inr t"
  by (subst skip_weekend.simps) simp

lemma skip_weekend_step:
  "5 \<le> weekday t \<Longrightarrow> 0 \<le> ordinal t \<Longrightarrow> ordinal t < MAXORDINAL \<Longrightarrow>
   skip_weekend t = skip_weekend (t\<lparr>ordinal := ordinal t + 1\<rparr>)"
  by (subst skip_weekend.simps) (simp add: add_days_def)

lemma monthly_jan31:
  "calculate_next_occurrence (Some ''monthly'') r (mk_datetime 2026 1 31 0 0 0)
     = Inr (Some (mk_datetime 2026 2 28 0 0 0))"
  by (simp add: calculate_next_occurrence_def cal_defs Let_def)

text \<open>
  Claim C5. For every timestamp \<open>T\<close> the daily pattern gives \<open>T\<close> plus one day (the
  ordinal advances by one, the time of day stays; on the last representable day the
  addition raises OverflowError, as \<open>T + timedelta(days=1)\<close> does). The monthly pattern
  sends 2026-01-31 to 2026-02-28, and in general keeps the day of the month clamped to
  the length of the next month. For a Friday \<open>F\<close> the custom rule \<open>every_weekday\<close> steps
  over Saturday and Sunday and gives the following Monday, three days later.
\<close>

theorem next_occurrence_daily_monthly_weekday:
  "calculate_next_occurrence (Some ''daily'') r T = map_sum id Some (add_days T 1)
   \<and> (valid_datetime T \<and> ordinal T < MAXORDINAL \<longrightarrow>
        calculate_next_occurrence (Some ''daily'') r T = Inr (Some (T\<lparr>ordinal := ordinal T + 1\<rparr>)))
   \<and> calculate_next_occurrence (Some ''monthly'') r (mk_datetime 2026 1 31 0 0 0)
        = Inr (Some (mk_datetime 2026 2 28 0 0 0))
   \<and> ord2ymd (ordinal (mk_datetime 2026 1 31 0 0 0)) = (2026, 1, 31)
   \<and> ord2ymd (ordinal (mk_datetime 2026 2 28 0 0 0)) = (2026, 2, 28)
   \<and> calculate_next_occurrence (Some ''monthly'') r T
        = (let y = (if dt_month T + 1 > 12 then dt_year T + 1 else dt_year T);
               m = (if dt_month T + 1 > 12 then 1 else dt_month T + 1)
           in map_sum id Some (replace_ymd T y m (min (dt_day T) (days_in_month y m))))
   \<and> (valid_datetime F \<and> weekday F = 4 \<and> ordinal F + 3 \<le> MAXORDINAL \<longrightarrow>
        calculate_next_occurrence (Some ''custom'') (Some ''every_weekday'') F
          = Inr (Some (F\<lparr>ordinal := ordinal F + 3\<rparr>))
        \<and> weekday (F\<lparr>ordinal := ordinal F + 1\<rparr>) = 5
        \<and> weekday (F\<lparr>ordinal := ordinal F + 2\<rparr>) = 6
        \<and> weekday (F\<lparr>ordinal := ordinal F + 3\<rparr>) = 0)"
proof -
  have daily: "calculate_next_occurrence (Some ''daily'') r T = map_sum id Some (add_days T 1)"
    by (simp add: calculate_next_occurrence_def)
  have daily': "valid_datetime T \<and> ordinal T < MAXORDINAL \<longrightarrow>
        calculate_next_occurrence (Some ''daily'') r T = Inr (Some (T\<lparr>ordinal := ordinal T + 1\<rparr>))"
    by (simp add: calculate_next_occurrence_def add_days_def valid_datetime_def)
  have o1: "ord2ymd (ordinal (mk_datetime 2026 1 31 0 0 0)) = (2026, 1, 31)"
    by (simp add: cal_defs Let_def)
  have o2: "ord2ymd (ordinal (mk_datetime 2026 2 28 0 0 0)) = (2026, 2, 28)"
    by (simp add: cal_defs Let_def)
  have monthly: "calculate_next_occurrence (Some ''monthly'') r T
        = (let y = (if dt_month T + 1 > 12 then dt_year T + 1 else dt_year T);
               m = (if dt_month T + 1 > 12 then 1 else dt_month T + 1)
           in map_sum id Some (replace_ymd T y m (min (dt_day T) (days_in_month y m))))"
    by (simp add: calculate_next_occurrence_def monthrange_days_def Let_def)
  have friday: "valid_datetime F \<and> weekday F = 4 \<and> ordinal F + 3 \<le> MAXORDINAL \<longrightarrow>
        calculate_next_occurrence (Some ''custom'') (Some ''every_weekday'') F
          = Inr (Some (F\<lparr>ordinal := ordinal F + 3\<rparr>))
        \<and> weekday (F\<lparr>ordinal := ordinal F + 1\<rparr>) = 5
        \<and> weekday (F\<lparr>ordinal := ordinal F + 2\<rparr>) = 6
        \<and> weekday (F\<lparr>ordinal := ordinal F + 3\<rparr>) = 0"
  proof (intro impI)
    assume h: "valid_datetime F \<and> weekday F = 4 \<and> ordinal F + 3 \<le> MAXORDINAL"
    then have v: "1 \<le> ordinal F" and w: "weekday F = 4" and m: "ordinal F + 3 \<le> MAXORDINAL"
      by (simp_all add: valid_datetime_def)
    have w1: "weekday (F\<lparr>ordinal := ordinal F + 1\<rparr>) = 5"
      using w unfolding weekday_def by simp presburger
    have w2: "weekday (F\<lparr>ordinal := ordinal F + 2\<rparr>) = 6"
      using w unfolding weekday_def by simp presburger
    have w3: "weekday (F\<lparr>ordinal := ordinal F + 3\<rparr>) = 0"
      using w unfolding weekday_def by simp presburger
    have s3: "skip_weekend (F\<lparr>ordinal := ordinal F + 3\<rparr>) = Inr (F\<lparr>ordinal := ordinal F + 3\<rparr>)"
      using w3 by (simp add: skip_weekend_weekday)
    have s2: "skip_weekend (F\<lparr>ordinal := ordinal F + 2\<rparr>)
                = skip_weekend (F\<lparr>ordinal := ordinal F + 3\<rparr>)"
      using skip_weekend_step [of "F\<lparr>ordinal := ordinal F + 2\<rparr>"] w2 v m
      by (simp add: add.commute)
    have s1: "skip_weekend (F\<lparr>ordinal := ordinal F + 1\<rparr>)
                = skip_weekend (F\<lparr>ordinal := ordinal F + 2\<rparr>)"
      using skip_weekend_step [of "F\<lparr>ordinal := ordinal F + 1\<rparr>"] w1 v m
      by (simp add: add.commute)
    have "calculate_next_occurrence (Some ''custom'') (Some ''every_weekday'') F
          = map_sum id Some (skip_weekend (F\<lparr>ordinal := ordinal F + 1\<rparr>))"
      using v m by (simp add: calculate_next_occurrence_def add_days_def)
    with s1 s2 s3 w1 w2 w3
    show "calculate_next_occurrence (Some ''custom'') (Some ''every_weekday'') F
          = Inr (Some (F\<lparr>ordinal := ordinal F + 3\<rparr>))
        \<and> weekday (F\<lparr>ordinal := ordinal F + 1\<rparr>) = 5
        \<and> weekday (F\<lparr>ordinal := ordinal F + 2\<rparr>) = 6
        \<and> weekday (F\<lparr>ordinal := ordinal F + 3\<rparr>) = 0"
      by simp
  qed
  from daily daily' monthly_jan31 o1 o2 monthly friday show ?thesis
    by (intro conjI)
qed

theorem next_occurrence_daily_monthly_weekday_witness:
  "valid_datetime (mk_datetime 2026 1 31 0 0 0)
   \<and> ordinal (mk_datetime 2026 1 31 0 0 0) < MAXORDINAL
   \<and> calculate_next_occurrence (Some ''daily'') None (mk_datetime 2026 1 31 0 0 0)
       = Inr (Some (mk_datetime 2026 2 1 0 0 0))
   \<and> valid_datetime (mk_datetime 2026 11 6 17 0 0)
   \<and> weekday (mk_datetime 2026 11 6 17 0 0) = 4
   \<and> ordinal (mk_datetime 2026 11 6 17 0 0) + 3 \<le> MAXORDINAL
   \<and> calculate_next_occurrence (Some ''custom'') (Some ''every_weekday'')
         (mk_datetime 2026 11 6 17 0 0)
       = Inr (Some (mk_datetime 2026 11 9 17 0 0))
   \<and> weekday (mk_datetime 2026 11 9 17 0 0) = 0"
  using next_occurrence_daily_monthly_weekday
          [of None "mk_datetime 2026 1 31 0 0 0" "mk_datetime 2026 11 6 17 0 0"]
  by (simp add: mk_datetime_def ymd2ord_def days_before_year_def days_before_month_def
        DAYS_BEFORE_MONTH_def is_leap_def valid_datetime_def MAXORDINAL_def weekday_def
        add_days_def)


section \<open>Properties of the recurrence projection\<close>

text \<open>
  Claim C3, as stated, fails: the next occurrence is computed from the clock at the time
  the completion is processed, not from the due date of the completed task. A monthly
  task due on 2026-01-31 whose completion is processed on 2026-03-15 at 09:30 projects
  a task due on 2026-04-15 at 09:30, not on 2026-02-28.
\<close>

theorem projection_uses_completion_time_counterexample:
  "map due_date (tasks (snd (create_next_occurrence clock_mar15 pay_rent rent_store)))
     = [Some (mk_datetime 2026 1 31 0 0 0), Some (mk_datetime 2026 4 15 9 30 0)]
   \<and> mk_datetime 2026 4 15 9 30 0 \<noteq> mk_datetime 2026 2 28 0 0 0"
  by (simp add: create_next_occurrence_def pay_rent_def rent_store_def clock_mar15_def
        calculate_next_occurrence_def session_add_new_def cal_defs Let_def)

lemma create_next_occurrence_Some:
  assumes r: "recurrence t \<noteq> None" "recurrence t \<noteq> Some []"
    and c: "calculate_next_occurrence (recurrence t) (recurrence_rule t) (utcnow 0) = Inr (Some d)"
  shows "create_next_occurrence utcnow t s =
     (Inr (Some \<lparr>tid = Some (next_id s), user_id = user_id t, title = title t,
                  description = description t, completed = False, created_at = utcnow 1,
                  updated_at = utcnow 2, priority = priority t, due_date = Some d,
                  tags = tags t, recurrence = recurrence t,
                  recurrence_rule = recurrence_rule t, next_occurrence = None\<rparr>),
      s\<lparr>tasks := tasks s @ [\<lparr>tid = Some (next_id s), user_id = user_id t, title = title t,
                  description = description t, completed = False, created_at = utcnow 1,
                  updated_at = utcnow 2, priority = priority t, due_date = Some d,
                  tags = tags t, recurrence = recurrence t,
                  recurrence_rule = recurrence_rule t, next_occurrence = None\<rparr>],
        next_id := next_id s + 1\<rparr>)"
  using r c by (simp add: create_next_occurrence_def session_add_new_def Let_def)

text \<open>
  Claim C3, amended. Completing a monthly task stores exactly one new task whose due
  date is the next occurrence computed from the time the completion is processed (a
  completion processed at 2026-01-31T00:00:00 gives 2026-02-28T00:00:00), not completed,
  without a next occurrence, with the owner, title, description, priority, tags,
  recurrence and recurrence rule of the completed task.
\<close>

theorem monthly_projection:
  assumes m: "recurrence t = Some ''monthly''"
    and d: "calculate_next_occurrence (Some ''monthly'') (recurrence_rule t) (utcnow 0) = Inr (Some d)"
  shows "\<exists>n. create_next_occurrence utcnow t s
               = (Inr (Some n), s\<lparr>tasks := tasks s @ [n], next_id := next_id s + 1\<rparr>)
           \<and> due_date n = Some d \<and> completed n = False \<and> next_occurrence n = None
           \<and> user_id n = user_id t \<and> title n = title t \<and> description n = description t
           \<and> priority n = priority t \<and> tags n = tags t \<and> recurrence n = recurrence t
           \<and> recurrence_rule n = recurrence_rule t
           \<and> (utcnow 0 = mk_datetime 2026 1 31 0 0 0 \<longrightarrow> d = mk_datetime 2026 2 28 0 0 0)"
proof -
  have "utcnow 0 = mk_datetime 2026 1 31 0 0 0 \<longrightarrow> d = mk_datetime 2026 2 28 0 0 0"
    using d monthly_jan31 [of "recurrence_rule t"] by auto
  then show ?thesis
    using create_next_occurrence_Some [of t utcnow d s] m d by simp
qed

theorem monthly_projection_witness:
  "recurrence pay_rent = Some ''monthly''
   \<and> calculate_next_occurrence (Some ''monthly'') (recurrence_rule pay_rent) (clock_jan31 0)
       = Inr (Some (mk_datetime 2026 2 28 0 0 0))
   \<and> map due_date (tasks (snd (create_next_occurrence clock_jan31 pay_rent rent_store)))
       = [Some (mk_datetime 2026 1 31 0 0 0), Some (mk_datetime 2026 2 28 0 0 0)]
   \<and> map completed (tasks (snd (create_next_occurrence clock_jan31 pay_rent rent_store)))
       = [True, False]
   \<and> map title (tasks (snd (create_next_occurrence clock_jan31 pay_rent rent_store)))
       = [''Pay rent'', ''Pay rent'']"
proof -
  have r: "recurrence pay_rent = Some ''monthly''"
    by (simp add: pay_rent_def)
  have c: "calculate_next_occurrence (Some ''monthly'') (recurrence_rule pay_rent) (clock_jan31 0)
       = Inr (Some (mk_datetime 2026 2 28 0 0 0))"
    by (simp add: clock_jan31_def monthly_jan31)
  from monthly_projection [of pay_rent clock_jan31 "mk_datetime 2026 2 28 0 0 0" rent_store] r c
  show ?thesis
    by (auto simp: rent_store_def pay_rent_def)
qed

text \<open>
  Claim C4 at a failing input: the same \<open>task.completed\<close> event delivered twice
  stores two projected tasks with the same owner, title and due date; nothing on the
  path calls \<open>prevent_duplicate_creation\<close>, and that function reports "no duplicate"
  for every input, since it compares a title with an integer task id.
\<close>

theorem duplicate_completion_event_projects_twice:
  "map title (tasks (snd (process_task_completed_event clock_mar15 (Some 1) (Some ''u1'')
       (snd (process_task_completed_event clock_mar15 (Some 1) (Some ''u1'') standup_world)))))
     = [''Standup'', ''Standup'', ''Standup'']
   \<and> map due_date (tasks (snd (process_task_completed_event clock_mar15 (Some 1) (Some ''u1'')
       (snd (process_task_completed_event clock_mar15 (Some 1) (Some ''u1'') standup_world)))))
     = [Some (mk_datetime 2026 3 15 9 0 0), Some (mk_datetime 2026 3 16 9 30 0),
        Some (mk_datetime 2026 3 16 9 30 0)]
   \<and> map user_id (tasks (snd (process_task_completed_event clock_mar15 (Some 1) (Some ''u1'')
       (snd (process_task_completed_event clock_mar15 (Some 1) (Some ''u1'') standup_world)))))
     = [''u1'', ''u1'', ''u1'']
   \<and> prevent_duplicate_creation existing_tasks task_id rec next_occ"
proof -
  have p: "prevent_duplicate_creation existing_tasks task_id rec next_occ"
    by (simp add: prevent_duplicate_creation_def list_ex_iff)
  have c: "calculate_next_occurrence (Some ''daily'') None (clock_mar15 0)
             = Inr (Some (mk_datetime 2026 3 16 9 30 0))"
    by (simp add: calculate_next_occurrence_def clock_mar15_def add_days_def MAXORDINAL_def
          mk_datetime_def ymd2ord_def days_before_year_def days_before_month_def
          DAYS_BEFORE_MONTH_def is_leap_def)
  have one: "process_task_completed_event clock_mar15 (Some 1) (Some ''u1'') standup_world
     = (True, standup_world\<lparr>tasks := [standup, standup\<lparr>tid := Some 2, completed := False,
           created_at := clock_mar15 1, updated_at := clock_mar15 2,
           due_date := Some (mk_datetime 2026 3 16 9 30 0)\<rparr>], next_id := 3\<rparr>)"
    using c by (simp add: process_task_completed_event_def create_next_occurrence_def
          standup_world_def standup_def session_add_new_def Let_def)
  have two: "process_task_completed_event clock_mar15 (Some 1) (Some ''u1'')
       (standup_world\<lparr>tasks := [standup, standup\<lparr>tid := Some 2, completed := False,
           created_at := clock_mar15 1, updated_at := clock_mar15 2,
           due_date := Some (mk_datetime 2026 3 16 9 30 0)\<rparr>], next_id := 3\<rparr>)
     = (True, standup_world\<lparr>tasks := [standup, standup\<lparr>tid := Some 2, completed := False,
           created_at := clock_mar15 1, updated_at := clock_mar15 2,
           due_date := Some (mk_datetime 2026 3 16 9 30 0)\<rparr>,
           standup\<lparr>tid := Some 3, completed := False,
           created_at := clock_mar15 1, updated_at := clock_mar15 2,
           due_date := Some (mk_datetime 2026 3 16 9 30 0)\<rparr>], next_id := 4\<rparr>)"
    using c by (simp add: process_task_completed_event_def create_next_occurrence_def
          standup_world_def standup_def session_add_new_def Let_def)
  have both: "tasks (snd (process_task_completed_event clock_mar15 (Some 1) (Some ''u1'')
       (snd (process_task_completed_event clock_mar15 (Some 1) (Some ''u1'') standup_world))))
     = [standup, standup\<lparr>tid := Some 2, completed := False,
           created_at := clock_mar15 1, updated_at := clock_mar15 2,
           due_date := Some (mk_datetime 2026 3 16 9 30 0)\<rparr>,
           standup\<lparr>tid := Some 3, completed := False,
           created_at := clock_mar15 1, updated_at := clock_mar15 2,
           due_date := Some (mk_datetime 2026 3 16 9 30 0)\<rparr>]"
    by (simp only: one two snd_conv) simp
  show ?thesis
    using p by (simp only: both) (simp add: standup_def)
qed


section \<open>Properties of notification delivery\<close>

lemma retry_loop_rows:
  "distinct (map nid fs) \<Longrightarrow>
   (\<forall>n\<in>set fs. \<forall>r\<in>set (notifications ns). nid r = nid n \<longrightarrow> r = n) \<Longrightarrow>
   notifications (snd (retry_loop fs ns c))
     = map (\<lambda>r. if nid r \<in> nid ` set fs \<and> delivery_attempts r < 3
                 then r\<lparr>delivery_attempts := delivery_attempts r + 1\<rparr> else r)
           (notifications ns)"
proof (induction fs arbitrary: ns c)
  case Nil
  then show ?case by simp
next
  case (Cons n rest)
  have d: "distinct (map nid rest)" and nin: "nid n \<notin> nid ` set rest"
    using Cons.prems(1) by auto
  have same: "\<And>r. r \<in> set (notifications ns) \<Longrightarrow> nid r = nid n \<Longrightarrow> r = n"
    using Cons.prems(2) by simp
  show ?case
  proof (cases "delivery_attempts n < 3")
    case True
    let ?n' = "n\<lparr>delivery_attempts := delivery_attempts n + 1\<rparr>"
    let ?ns' = "session_merge ?n' ns"
    have p2: "\<forall>m\<in>set rest. \<forall>r\<in>set (notifications ?ns'). nid r = nid m \<longrightarrow> r = m"
      using Cons.prems(2) nin by (auto simp: session_merge_def)
    have "notifications (snd (retry_loop (n # rest) ns c))
            = notifications (snd (retry_loop rest ?ns' (c + 1)))"
      using True by simp
    also have "\<dots> = map (\<lambda>r. if nid r \<in> nid ` set rest \<and> delivery_attempts r < 3
                 then r\<lparr>delivery_attempts := delivery_attempts r + 1\<rparr> else r)
           (notifications ?ns')"
      using Cons.IH [OF d p2] .
    also have "\<dots> = map (\<lambda>r. if nid r \<in> nid ` set (n # rest) \<and> delivery_attempts r < 3
                 then r\<lparr>delivery_attempts := delivery_attempts r + 1\<rparr> else r)
           (notifications ns)"
      using True nin same by (auto simp: session_merge_def)
    finally show ?thesis .
  next
    case False
    have "notifications (snd (retry_loop (n # rest) ns c))
            = notifications (snd (retry_loop rest ns c))"
      using False by simp
    also have "\<dots> = map (\<lambda>r. if nid r \<in> nid ` set rest \<and> delivery_attempts r < 3
                 then r\<lparr>delivery_attempts := delivery_attempts r + 1\<rparr> else r)
           (notifications ns)"
      using Cons.IH [OF d] Cons.prems(2) by simp
    also have "\<dots> = map (\<lambda>r. if nid r \<in> nid ` set (n # rest) \<and> delivery_attempts r < 3
                 then r\<lparr>delivery_attempts := delivery_attempts r + 1\<rparr> else r)
           (notifications ns)"
      using False nin same by auto
    finally show ?thesis .
  qed
qed

lemma retry_loop_count:
  "fst (retry_loop fs ns c) = c + int (length (filter (\<lambda>n. delivery_attempts n < 3) fs))"
  by (induction fs arbitrary: ns c) auto

lemma retry_loop_next_nid: "next_nid (snd (retry_loop fs ns c)) = next_nid ns"
  by (induction fs arbitrary: ns c) (auto simp: session_merge_def)

lemma retry_failed_rows:
  assumes d: "distinct (map nid (notifications ns))"
  shows "notifications (snd (retry_failed_notifications ns)) = map retry_row (notifications ns)"
proof -
  let ?fs = "get_failed_notifications ns"
  have inj: "inj_on nid (set (notifications ns))"
    using d by (simp add: distinct_map)
  have d': "distinct (map nid ?fs)"
    using d by (simp add: get_failed_notifications_def distinct_map_filter)
  have p: "\<forall>n\<in>set ?fs. \<forall>r\<in>set (notifications ns). nid r = nid n \<longrightarrow> r = n"
    using inj by (auto simp: get_failed_notifications_def dest: inj_onD)
  have mem: "\<And>r. r \<in> set (notifications ns) \<Longrightarrow>
               (nid r \<in> nid ` set ?fs) = (status r = ''failed'')"
    using inj by (auto simp: get_failed_notifications_def dest: inj_onD)
  have "notifications (snd (retry_failed_notifications ns))
          = map (\<lambda>r. if nid r \<in> nid ` set ?fs \<and> delivery_attempts r < 3
                 then r\<lparr>delivery_attempts := delivery_attempts r + 1\<rparr> else r)
           (notifications ns)"
    unfolding retry_failed_notifications_def using retry_loop_rows [OF d' p] .
  also have "\<dots> = map retry_row (notifications ns)"
    using mem by (auto simp: retry_row_def)
  finally show ?thesis .
qed

lemma retry_row_nid: "nid (retry_row r) = nid r"
  by (simp add: retry_row_def)

lemma retry_row_dead: "status r = ''failed'' \<Longrightarrow> 3 \<le> delivery_attempts r \<Longrightarrow> (retry_row ^^ k) r = r"
  by (induction k) (auto simp: retry_row_def)

lemma retry_iterated_rows:
  "distinct (map nid (notifications ns)) \<Longrightarrow>
   notifications (((\<lambda>s. snd (retry_failed_notifications s)) ^^ k) ns)
     = map (retry_row ^^ k) (notifications ns)"
proof (induction k)
  case 0
  then show ?case by simp
next
  case (Suc k)
  let ?ns = "((\<lambda>s. snd (retry_failed_notifications s)) ^^ k) ns"
  have rows: "notifications ?ns = map (retry_row ^^ k) (notifications ns)"
    by (rule Suc.IH [OF Suc.prems])
  have "\<And>r. nid ((retry_row ^^ k) r) = nid r"
    by (induction k) (simp_all add: retry_row_nid)
  then have "map nid (notifications ?ns) = map nid (notifications ns)"
    by (simp add: rows)
  then have "distinct (map nid (notifications ?ns))"
    using Suc.prems by simp
  then have "notifications (snd (retry_failed_notifications ?ns)) = map retry_row (notifications ?ns)"
    by (rule retry_failed_rows)
  then show ?case
    by (simp add: rows)
qed

text \<open>
  Claim C7. With the primary keys of the table distinct, one call of
  \<open>retry_failed_notifications\<close> changes exactly the rows with status \<open>failed\<close> and
  fewer than 3 delivery attempts (each gets one more attempt) and counts them; a row
  with status \<open>failed\<close> and 3 or more attempts is left as it is by any number of calls.
\<close>

theorem retry_failed_skips_exhausted:
  "distinct (map nid (notifications ns)) \<longrightarrow>
     notifications (snd (retry_failed_notifications ns))
       = map (\<lambda>r. if status r = ''failed'' \<and> delivery_attempts r < 3
                   then r\<lparr>delivery_attempts := delivery_attempts r + 1\<rparr> else r)
             (notifications ns)
   \<and> fst (retry_failed_notifications ns)
       = int (length (filter (\<lambda>r. status r = ''failed'' \<and> delivery_attempts r < 3)
                        (notifications ns)))
   \<and> (i < length (notifications ns) \<and> status (notifications ns ! i) = ''failed''
        \<and> 3 \<le> delivery_attempts (notifications ns ! i) \<longrightarrow>
        length (notifications (((\<lambda>s. snd (retry_failed_notifications s)) ^^ k) ns))
          = length (notifications ns)
        \<and> notifications (((\<lambda>s. snd (retry_failed_notifications s)) ^^ k) ns) ! i
          = notifications ns ! i)"
proof (intro impI conjI)
  assume d: "distinct (map nid (notifications ns))"
  show "notifications (snd (retry_failed_notifications ns))
       = map (\<lambda>r. if status r = ''failed'' \<and> delivery_attempts r < 3
                   then r\<lparr>delivery_attempts := delivery_attempts r + 1\<rparr> else r)
             (notifications ns)"
    using retry_failed_rows [OF d] by (simp add: retry_row_def [abs_def])
  show "fst (retry_failed_notifications ns)
       = int (length (filter (\<lambda>r. status r = ''failed'' \<and> delivery_attempts r < 3)
                        (notifications ns)))"
    by (simp add: retry_failed_notifications_def retry_loop_count get_failed_notifications_def
          conj_commute)
  assume i: "i < length (notifications ns) \<and> status (notifications ns ! i) = ''failed''
        \<and> 3 \<le> delivery_attempts (notifications ns ! i)"
  show "length (notifications (((\<lambda>s. snd (retry_failed_notifications s)) ^^ k) ns))
          = length (notifications ns)"
    using retry_iterated_rows [OF d, of k] by simp
  show "notifications (((\<lambda>s. snd (retry_failed_notifications s)) ^^ k) ns) ! i
          = notifications ns ! i"
    using retry_iterated_rows [OF d, of k] i by (simp add: retry_row_dead)
qed

theorem retry_failed_skips_exhausted_witness:
  "distinct (map nid (notifications failed_store))
   \<and> (0::nat) < length (notifications failed_store)
   \<and> status (notifications failed_store ! 0) = ''failed''
   \<and> 3 \<le> delivery_attempts (notifications failed_store ! 0)
   \<and> fst (retry_failed_notifications failed_store) = 1
   \<and> notifications (snd (retry_failed_notifications failed_store))
       = [dead_letter, retryable\<lparr>delivery_attempts := 2\<rparr>]
   \<and> notifications (((\<lambda>s. snd (retry_failed_notifications s)) ^^ 5) failed_store) ! 0 = dead_letter"
  using retry_failed_skips_exhausted [of failed_store 0 5]
  by (simp add: failed_store_def dead_letter_def retryable_def)

lemma reminder_consumer_stores_same_row:
  "snd (reminder_consumer_send_notification f utcnow uid task_id t d msg ch ns)
     = snd (send_notification f utcnow uid task_id t d msg ch ns)"
  by (simp add: reminder_consumer_send_notification_def send_notification_def Let_def
        split: option.splits)

text \<open>
  Claim C8, as stated, fails: \<open>send_notification\<close> stores the notification with status
  \<open>sent\<close>, never \<open>delivered\<close>.
\<close>

theorem send_notification_status_delivered_counterexample:
  "map status (notifications (snd (send_notification iso_jan31 clock_mar15 ''u1'' 1 ''Standup''
       (Some ''2026-01-31T00:00:00Z'') ''Standup is due'' ''push'' empty_nstore))) = [''sent'']
   \<and> map delivery_attempts (notifications (snd (send_notification iso_jan31 clock_mar15 ''u1'' 1
       ''Standup'' (Some ''2026-01-31T00:00:00Z'') ''Standup is due'' ''push'' empty_nstore))) = [1]
   \<and> ''sent'' \<noteq> ''delivered''"
  by (simp add: send_notification_def iso_jan31_def replace_Z_def empty_nstore_def Let_def)

text \<open>
  Claim C8, amended. \<open>send_notification\<close> calls no channel provider: whenever the due
  date parses (or is absent) it stores one new notification with status \<open>sent\<close>, the
  current time as \<open>sent_time\<close> and \<open>delivery_attempts = 1\<close>. A delivery failure is
  recorded by \<open>record_delivery_failure\<close>, which sets status \<open>failed\<close> and adds one to
  \<open>delivery_attempts\<close> of the stored notification.
\<close>

theorem send_notification_records_sent:
  "((due_date' \<noteq> None \<and> due_date' \<noteq> Some [] \<longrightarrow>
       fromisoformat (replace_Z (the due_date')) \<noteq> None) \<longrightarrow>
     (\<exists>n. send_notification fromisoformat utcnow uid task_id t due_date' msg ch ns
             = (Inr n, ns\<lparr>notifications := notifications ns @ [n], next_nid := next_nid ns + 1\<rparr>)
          \<and> status n = ''sent'' \<and> sent_time n = Some (utcnow 1) \<and> delivery_attempts n = 1
          \<and> n_task_id n = task_id \<and> n_user_id n = uid \<and> channel n = ch
          \<and> message_content n = msg))
   \<and> (find (\<lambda>r. nid r = Some k) (notifications ns) = Some m \<longrightarrow>
        record_delivery_failure k e ns
          = (Some (m\<lparr>status := ''failed'', delivery_attempts := delivery_attempts m + 1\<rparr>),
             ns\<lparr>notifications :=
                  map (\<lambda>r. if nid r = Some k
                            then m\<lparr>status := ''failed'', delivery_attempts := delivery_attempts m + 1\<rparr>
                            else r) (notifications ns)\<rparr>))"
proof (intro conjI impI)
  assume h: "due_date' \<noteq> None \<and> due_date' \<noteq> Some [] \<longrightarrow>
       fromisoformat (replace_Z (the due_date')) \<noteq> None"
  show "\<exists>n. send_notification fromisoformat utcnow uid task_id t due_date' msg ch ns
             = (Inr n, ns\<lparr>notifications := notifications ns @ [n], next_nid := next_nid ns + 1\<rparr>)
          \<and> status n = ''sent'' \<and> sent_time n = Some (utcnow 1) \<and> delivery_attempts n = 1
          \<and> n_task_id n = task_id \<and> n_user_id n = uid \<and> channel n = ch
          \<and> message_content n = msg"
  proof (cases "due_date' \<noteq> None \<and> due_date' \<noteq> Some []")
    case True
    with h obtain d where "fromisoformat (replace_Z (the due_date')) = Some d"
      by auto
    with True show ?thesis
      by (simp add: send_notification_def Let_def)
  next
    case False
    then show ?thesis
      by (auto simp: send_notification_def Let_def)
  qed
next
  assume f: "find (\<lambda>r. nid r = Some k) (notifications ns) = Some m"
  then have "nid m = Some k"
    by (auto simp: find_Some_iff)
  with f show "record_delivery_failure k e ns
          = (Some (m\<lparr>status := ''failed'', delivery_attempts := delivery_attempts m + 1\<rparr>),
             ns\<lparr>notifications :=
                  map (\<lambda>r. if nid r = Some k
                            then m\<lparr>status := ''failed'', delivery_attempts := delivery_attempts m + 1\<rparr>
                            else r) (notifications ns)\<rparr>)"
    by (simp add: record_delivery_failure_def Let_def)
qed

theorem send_notification_records_sent_witness:
  "iso_jan31 (replace_Z (the (Some ''2026-01-31T00:00:00Z''))) \<noteq> None
   \<and> map status (notifications (snd (send_notification iso_jan31 clock_mar15 ''u1'' 1 ''Standup''
       (Some ''2026-01-31T00:00:00Z'') ''Standup is due'' ''push'' failed_store)))
       = [''failed'', ''failed'', ''sent'']
   \<and> find (\<lambda>r. nid r = Some 2) (notifications failed_store) = Some retryable
   \<and> record_delivery_failure 2 ''timeout'' failed_store
       = (Some (retryable\<lparr>status := ''failed'', delivery_attempts := 2\<rparr>),
          failed_store\<lparr>notifications :=
             [dead_letter, retryable\<lparr>status := ''failed'', delivery_attempts := 2\<rparr>]\<rparr>)"
proof -
  have h: "iso_jan31 (replace_Z (the (Some ''2026-01-31T00:00:00Z''))) \<noteq> None"
    by (simp add: iso_jan31_def replace_Z_def)
  have f: "find (\<lambda>r. nid r = Some 2) (notifications failed_store) = Some retryable"
    by (simp add: failed_store_def dead_letter_def retryable_def)
  note t = send_notification_records_sent
          [of "Some ''2026-01-31T00:00:00Z''" iso_jan31 clock_mar15 "''u1''" 1 "''Standup''"
              "''Standup is due''" "''push''" failed_store 2 retryable "''timeout''"]
  from t h obtain n where
    n: "send_notification iso_jan31 clock_mar15 ''u1'' 1 ''Standup''
          (Some ''2026-01-31T00:00:00Z'') ''Standup is due'' ''push'' failed_store
        = (Inr n, failed_store\<lparr>notifications := notifications failed_store @ [n],
                               next_nid := next_nid failed_store + 1\<rparr>)"
    and s: "status n = ''sent''"
    by blast
  have a: "map status (notifications (snd (send_notification iso_jan31 clock_mar15 ''u1'' 1
       ''Standup'' (Some ''2026-01-31T00:00:00Z'') ''Standup is due'' ''push'' failed_store)))
       = [''failed'', ''failed'', ''sent'']"
    by (simp add: n s) (simp add: failed_store_def dead_letter_def retryable_def)
  from t f have "record_delivery_failure 2 ''timeout'' failed_store
       = (Some (retryable\<lparr>status := ''failed'',
                           delivery_attempts := delivery_attempts retryable + 1\<rparr>),
          failed_store\<lparr>notifications :=
             map (\<lambda>r. if nid r = Some 2
                       then retryable\<lparr>status := ''failed'',
                                      delivery_attempts := delivery_attempts retryable + 1\<rparr>
                       else r) (notifications failed_store)\<rparr>)"
    by blast
  then have b: "record_delivery_failure 2 ''timeout'' failed_store
       = (Some (retryable\<lparr>status := ''failed'', delivery_attempts := 2\<rparr>),
          failed_store\<lparr>notifications :=
             [dead_letter, retryable\<lparr>status := ''failed'', delivery_attempts := 2\<rparr>]\<rparr>)"
    by (simp add: failed_store_def dead_letter_def retryable_def)
  from h a f b show ?thesis
    by (intro conjI)
qed


section \<open>Properties of the ownership gate\<close>

lemma str_int_42: "str_int 42 = ''42''"
  by (simp add: str_int_def str_nat.simps digit_char_def)

lemma validate_ownership_generic_not_found:
  "resource_user_id \<noteq> requesting_user_id \<Longrightarrow>
   validate_ownership resource_user_id requesting_user_id
     = Inl (MCPToolError ''NOT_FOUND'' ''Resource not found'' [])"
  by (simp add: validate_ownership_def)

lemma get_by_id_foreign_is_missing:
  "\<forall>r\<in>set (tasks s). tid r = Some task_id \<longrightarrow> user_id r \<noteq> uid \<Longrightarrow>
   get_by_id task_id uid s = None"
  by (auto simp: get_by_id_def find_None_iff)

lemma foreign_task_same_code:
  "uid \<noteq> [] \<Longrightarrow> select_by_id task_id s = Some t \<Longrightarrow> user_id t \<noteq> uid \<Longrightarrow>
   select_by_id task_id s' = None \<Longrightarrow>
   map_sum err_code id (view_task uid task_id s) = map_sum err_code id (view_task uid task_id s')"
  by (simp add: view_task_def validate_user_id_def validate_ownership_def task_not_found_def)

text \<open>
  Claim C2 at a failing input. The ownership check itself gives the generic error
  (\<open>validate_ownership_generic_not_found\<close>), \<open>get_by_id\<close> answers a foreign task as it
  answers a missing one (\<open>get_by_id_foreign_is_missing\<close>), and the tools give the code
  \<open>NOT_FOUND\<close> in both cases (\<open>foreign_task_same_code\<close>). But a tool's result for a
  foreign task is not the result for a missing task: user A asking for task 42 of user B
  gets the message "Resource not found" without details, and asking for a task 42 that
  does not exist gets "Task 42 not found" with the task id in the details.
\<close>

theorem foreign_task_error_differs_from_missing:
  "view_task ''userA'' 42 bobs_store = Inl (MCPToolError ''NOT_FOUND'' ''Resource not found'' [])
   \<and> view_task ''userA'' 42 empty_store
       = Inl (MCPToolError ''NOT_FOUND'' ''Task 42 not found'' [(''task_id'', PInt 42)])
   \<and> view_task ''userA'' 42 bobs_store \<noteq> view_task ''userA'' 42 empty_store"
  by (simp add: view_task_def validate_user_id_def validate_ownership_def task_not_found_def
        select_by_id_def bobs_store_def bobs_task_def empty_store_def str_int_42)

section \<open>Properties of the dual-path tools\<close>

lemmas publish_defs = publish_task_created_def publish_task_completed_def
  publish_task_deleted_def publish_reminder_scheduled_def publish_event_def
  dapr_client_publish_def

text \<open>
  Claim C1 at a failing input: a create request with a due date, on a bus that accepts
  the \<open>task.created\<close> event and then fails on the reminder event. The intent event is
  on the bus and the task is also written to the store in the same call, which answers
  with success: both paths took effect.
\<close>

theorem add_task_partial_publish_both_paths:
  "map event_type (bus (snd (add_task store_reads_jan31 clock_jan31 ''u1'' ''Pay rent'' None
       ''medium'' (Some ''2026-01-31T00:00:00Z'') None (Some ''monthly'') None partial_bus_world)))
     = [''task.created'']
   \<and> map title (tasks (snd (add_task store_reads_jan31 clock_jan31 ''u1'' ''Pay rent'' None
       ''medium'' (Some ''2026-01-31T00:00:00Z'') None (Some ''monthly'') None partial_bus_world)))
     = [''Pay rent'']
   \<and> map_sum err_code success (fst (add_task store_reads_jan31 clock_jan31 ''u1'' ''Pay rent''
       None ''medium'' (Some ''2026-01-31T00:00:00Z'') None (Some ''monthly'') None
       partial_bus_world))
     = Inr True"
  by (simp add: add_task_def add_task_fallback_def validate_user_id_def strip_def isspace_def
        publish_defs partial_bus_world_def store_reads_jan31_def session_add_new_def
        create_success_response_def Let_def)

lemma select_by_id_tid: "select_by_id task_id s = Some t \<Longrightarrow> tid t = Some task_id"
  by (auto simp: select_by_id_def find_Some_iff)

lemma select_by_id_mem: "select_by_id task_id s = Some t \<Longrightarrow> t \<in> set (tasks s)"
  by (auto simp: select_by_id_def find_Some_iff)

text \<open>
  The complete tool, which publishes one event only, takes exactly one path: the store
  is untouched when the publish succeeds, and the bus is untouched when it fails.
\<close>

lemma complete_task_one_path:
  assumes u: "uid \<noteq> []"
  shows "(\<not> dapr_available w \<or> dapr_script w = [] \<or> (\<exists>rest. dapr_script w = True # rest)) \<longrightarrow>
           tasks (snd (complete_task utcnow uid task_id w)) = tasks w"
    and "dapr_available w \<and> dapr_script w = False # rest \<and> select_by_id task_id w = Some t
           \<and> user_id t = uid \<longrightarrow>
           bus (snd (complete_task utcnow uid task_id w)) = bus w
           \<and> tasks (snd (complete_task utcnow uid task_id w))
               = map (\<lambda>r. if tid r = Some task_id
                           then t\<lparr>completed := True, updated_at := utcnow 0\<rparr> else r) (tasks w)"
proof -
  show "(\<not> dapr_available w \<or> dapr_script w = [] \<or> (\<exists>rest. dapr_script w = True # rest)) \<longrightarrow>
           tasks (snd (complete_task utcnow uid task_id w)) = tasks w"
    using u by (auto simp: complete_task_def validate_user_id_def publish_defs)
  show "dapr_available w \<and> dapr_script w = False # rest \<and> select_by_id task_id w = Some t
           \<and> user_id t = uid \<longrightarrow>
           bus (snd (complete_task utcnow uid task_id w)) = bus w
           \<and> tasks (snd (complete_task utcnow uid task_id w))
               = map (\<lambda>r. if tid r = Some task_id
                           then t\<lparr>completed := True, updated_at := utcnow 0\<rparr> else r) (tasks w)"
  proof
    assume h: "dapr_available w \<and> dapr_script w = False # rest \<and> select_by_id task_id w = Some t
           \<and> user_id t = uid"
    then have s: "select_by_id task_id (w\<lparr>dapr_script := rest\<rparr>) = Some t"
      by (simp add: select_by_id_def)
    have "tid t = Some task_id"
      using h select_by_id_tid by blast
    then show "bus (snd (complete_task utcnow uid task_id w)) = bus w
           \<and> tasks (snd (complete_task utcnow uid task_id w))
               = map (\<lambda>r. if tid r = Some task_id
                           then t\<lparr>completed := True, updated_at := utcnow 0\<rparr> else r) (tasks w)"
      using u h s
      by (simp add: complete_task_def validate_user_id_def publish_defs
            complete_task_fallback_def validate_ownership_def session_update_def Let_def)
  qed
qed

text \<open>
  Claim C6, as stated, fails for \<open>TaskService.toggle_complete\<close>: invoked on a completed
  task it stores the task as not completed.
\<close>

theorem toggle_complete_uncompletes_counterexample:
  "map completed (tasks rent_store) = [True]
   \<and> map completed (tasks (snd (toggle_complete clock_mar15 1 ''u1'' rent_store))) = [False]
   \<and> map_option completed (fst (toggle_complete clock_mar15 1 ''u1'' rent_store)) = Some False"
  by (simp add: toggle_complete_def get_by_id_def rent_store_def pay_rent_def
        session_update_def Let_def)

lemma distinct_tid_unique:
  assumes d: "distinct (map tid (tasks s))" and f: "select_by_id task_id s = Some t"
    and r: "r \<in> set (tasks s)" "tid r = Some task_id"
  shows "r = t"
proof -
  have i: "inj_on tid (set (tasks s))"
    using d by (simp add: distinct_map)
  have "tid r = tid t"
    using r select_by_id_tid [OF f] by simp
  then show ?thesis
    using i r(1) select_by_id_mem [OF f] by (auto dest: inj_onD)
qed

text \<open>
  Claim C6, amended. The direct store write of the complete tool is idempotent: for a
  task already completed and owned by the caller (primary keys distinct) it answers with
  success and changes nothing in the store but \<open>updated_at\<close> of that task.
  \<open>toggle_complete\<close> is a toggle: on a completed task it returns the task with
  \<open>completed = False\<close>.
\<close>

theorem complete_fallback_idempotent_toggle_flips:
  "(distinct (map tid (tasks w)) \<and> select_by_id task_id w = Some t \<and> user_id t = uid
      \<and> completed t \<longrightarrow>
      complete_task_fallback utcnow uid task_id w
        = (Inr (create_success_response (task_response_data (t\<lparr>updated_at := utcnow 0\<rparr>))
                  (''Task '' @ quoted (title t) @ '' marked as completed'')),
           w\<lparr>tasks := map (\<lambda>r. if tid r = Some task_id then r\<lparr>updated_at := utcnow 0\<rparr> else r)
                          (tasks w)\<rparr>))
   \<and> (get_by_id task_id uid s = Some t' \<and> completed t' \<longrightarrow>
        fst (toggle_complete utcnow task_id uid s)
          = Some (t'\<lparr>completed := False, updated_at := utcnow 0\<rparr>))"
proof (intro conjI impI)
  assume h: "distinct (map tid (tasks w)) \<and> select_by_id task_id w = Some t \<and> user_id t = uid
      \<and> completed t"
  then have tt: "tid t = Some task_id"
    using select_by_id_tid by blast
  have same: "t\<lparr>completed := True, updated_at := utcnow 0\<rparr> = t\<lparr>updated_at := utcnow 0\<rparr>"
    using h by (cases t) simp
  have rows: "map (\<lambda>r. if tid r = Some task_id then t\<lparr>updated_at := utcnow 0\<rparr> else r) (tasks w)
        = map (\<lambda>r. if tid r = Some task_id then r\<lparr>updated_at := utcnow 0\<rparr> else r) (tasks w)"
    using h distinct_tid_unique [of w task_id t] by (intro map_cong) auto
  show "complete_task_fallback utcnow uid task_id w
        = (Inr (create_success_response (task_response_data (t\<lparr>updated_at := utcnow 0\<rparr>))
                  (''Task '' @ quoted (title t) @ '' marked as completed'')),
           w\<lparr>tasks := map (\<lambda>r. if tid r = Some task_id then r\<lparr>updated_at := utcnow 0\<rparr> else r)
                          (tasks w)\<rparr>)"
    using h tt rows
    by (simp add: complete_task_fallback_def validate_ownership_def session_update_def
          Let_def same)
next
  assume "get_by_id task_id uid s = Some t' \<and> completed t'"
  then show "fst (toggle_complete utcnow task_id uid s)
          = Some (t'\<lparr>completed := False, updated_at := utcnow 0\<rparr>)"
    by (simp add: toggle_complete_def Let_def)
qed

theorem complete_fallback_idempotent_toggle_flips_witness:
  "distinct (map tid (tasks rent_world_bus_down))
   \<and> select_by_id 1 rent_world_bus_down = Some pay_rent
   \<and> user_id pay_rent = ''u1'' \<and> completed pay_rent
   \<and> tasks (snd (complete_task_fallback clock_mar15 ''u1'' 1 rent_world_bus_down))
       = [pay_rent\<lparr>updated_at := mk_datetime 2026 3 15 9 30 0\<rparr>]
   \<and> get_by_id 1 ''u1'' rent_store = Some pay_rent
   \<and> fst (toggle_complete clock_mar15 1 ''u1'' rent_store)
       = Some (pay_rent\<lparr>completed := False, updated_at := mk_datetime 2026 3 15 9 30 0\<rparr>)"
  using complete_fallback_idempotent_toggle_flips
          [where w = rent_world_bus_down and task_id = 1 and t = pay_rent and uid = "''u1''"
             and s = rent_store and t' = pay_rent and utcnow = clock_mar15]
  by (simp add: rent_world_bus_down_def rent_store_def pay_rent_def select_by_id_def
        get_by_id_def clock_mar15_def)

text \<open>
  Claim C9, as stated, fails for \<open>TaskService.create_advanced\<close>: a create request with
  priority \<open>urgent\<close> raises nothing and stores the task, with priority \<open>medium\<close>.
\<close>

theorem create_advanced_accepts_bad_priority_counterexample:
  "''urgent'' \<notin> set [''high'', ''medium'', ''low'']
   \<and> map title (tasks (snd (create_advanced iso_jan31 clock_mar15 ''u1'' ''Pay rent'' None
        ''urgent'' None None None None empty_store))) = [''Pay rent'']
   \<and> map priority (tasks (snd (create_advanced iso_jan31 clock_mar15 ''u1'' ''Pay rent'' None
        ''urgent'' None None None None empty_store))) = [''medium'']"
  by (simp add: create_advanced_def empty_store_def session_add_new_def Let_def)

text \<open>
  Claim C9, amended. A create request through the add-task tool from a non-empty user id
  whose title is empty or blank, whose priority is not high, medium or low, or whose tags
  are more than 10 or contain a tag longer than 20 characters fails with
  \<open>VALIDATION_ERROR\<close> naming the field (title, priority, tags, checked in that order),
  and nothing is published or stored. \<open>create_advanced\<close> rejects nothing: a priority
  outside the three values is replaced by \<open>medium\<close> and the task is stored.
\<close>

theorem add_task_rejects_invalid_fields:
  "(uid \<noteq> [] \<and> strip title' = [] \<longrightarrow>
      add_task coerce utcnow uid title' description' priority' due_date' tags' recurrence'
          recurrence_rule' w
        = (Inl (MCPToolError ''VALIDATION_ERROR'' ''Task title cannot be empty''
                  [(''field'', PStr ''title'')]), w))
   \<and> (uid \<noteq> [] \<and> strip title' \<noteq> [] \<and> priority' \<notin> {''high'', ''medium'', ''low''} \<longrightarrow>
      add_task coerce utcnow uid title' description' priority' due_date' tags' recurrence'
          recurrence_rule' w
        = (Inl (MCPToolError ''VALIDATION_ERROR'' ''Priority must be one of: high, medium, low''
                  [(''field'', PStr ''priority'')]), w))
   \<and> (uid \<noteq> [] \<and> strip title' \<noteq> [] \<and> priority' \<in> {''high'', ''medium'', ''low''}
        \<and> tags' = Some ts \<and> (length ts > 10 \<or> (\<exists>tag\<in>set ts. length tag > 20)) \<longrightarrow>
      snd (add_task coerce utcnow uid title' description' priority' due_date' tags' recurrence'
          recurrence_rule' w) = w
      \<and> (\<exists>msg. fst (add_task coerce utcnow uid title' description' priority' due_date' tags'
                   recurrence' recurrence_rule' w)
                = Inl (MCPToolError ''VALIDATION_ERROR'' msg [(''field'', PStr ''tags'')])))
   \<and> (priority' \<notin> {''high'', ''medium'', ''low''} \<longrightarrow>
        (\<exists>n. create_advanced fromisoformat utcnow uid title' description' priority' due_date'
                tags' recurrence' recurrence_rule' s
              = (n, s\<lparr>tasks := tasks s @ [n], next_id := next_id s + 1\<rparr>)
            \<and> priority n = ''medium'' \<and> title n = title' \<and> user_id n = uid))"
proof (intro conjI impI)
  assume "uid \<noteq> [] \<and> strip title' = []"
  then show "add_task coerce utcnow uid title' description' priority' due_date' tags' recurrence'
          recurrence_rule' w
        = (Inl (MCPToolError ''VALIDATION_ERROR'' ''Task title cannot be empty''
                  [(''field'', PStr ''title'')]), w)"
    by (simp add: add_task_def validate_user_id_def)
next
  assume "uid \<noteq> [] \<and> strip title' \<noteq> [] \<and> priority' \<notin> {''high'', ''medium'', ''low''}"
  moreover from this have "title' \<noteq> []"
    by (auto simp: strip_def)
  ultimately show "add_task coerce utcnow uid title' description' priority' due_date' tags'
          recurrence' recurrence_rule' w
        = (Inl (MCPToolError ''VALIDATION_ERROR'' ''Priority must be one of: high, medium, low''
                  [(''field'', PStr ''priority'')]), w)"
    by (simp add: add_task_def validate_user_id_def)
next
  assume h: "uid \<noteq> [] \<and> strip title' \<noteq> [] \<and> priority' \<in> {''high'', ''medium'', ''low''}
        \<and> tags' = Some ts \<and> (length ts > 10 \<or> (\<exists>tag\<in>set ts. length tag > 20))"
  then have t: "title' \<noteq> []"
    by (auto simp: strip_def)
  from h have ne: "ts \<noteq> []"
    by auto
  show "snd (add_task coerce utcnow uid title' description' priority' due_date' tags' recurrence'
          recurrence_rule' w) = w"
    using h t ne by (auto simp: add_task_def validate_user_id_def list_ex_iff)
  show "\<exists>msg. fst (add_task coerce utcnow uid title' description' priority' due_date' tags'
                   recurrence' recurrence_rule' w)
                = Inl (MCPToolError ''VALIDATION_ERROR'' msg [(''field'', PStr ''tags'')])"
    using h t ne by (auto simp: add_task_def validate_user_id_def list_ex_iff)
next
  assume "priority' \<notin> {''high'', ''medium'', ''low''}"
  then show "\<exists>n. create_advanced fromisoformat utcnow uid title' description' priority' due_date'
                tags' recurrence' recurrence_rule' s
              = (n, s\<lparr>tasks := tasks s @ [n], next_id := next_id s + 1\<rparr>)
            \<and> priority n = ''medium'' \<and> title n = title' \<and> user_id n = uid"
    by (simp add: create_advanced_def session_add_new_def Let_def)
qed

theorem add_task_rejects_invalid_fields_witness:
  "''u1'' \<noteq> [] \<and> strip ''  '' = [] \<and> strip ''Pay rent'' \<noteq> []
   \<and> ''urgent'' \<notin> {''high'', ''medium'', ''low''} \<and> ''low'' \<in> {''high'', ''medium'', ''low''}
   \<and> (\<exists>tag\<in>set [''aaaaaaaaaaaaaaaaaaaaa'']. length tag > 20)
   \<and> add_task store_reads_jan31 clock_mar15 ''u1'' ''  '' None ''medium'' None None None None
        partial_bus_world
       = (Inl (MCPToolError ''VALIDATION_ERROR'' ''Task title cannot be empty''
                 [(''field'', PStr ''title'')]), partial_bus_world)
   \<and> add_task store_reads_jan31 clock_mar15 ''u1'' ''Pay rent'' None ''urgent'' None None None
        None partial_bus_world
       = (Inl (MCPToolError ''VALIDATION_ERROR'' ''Priority must be one of: high, medium, low''
                 [(''field'', PStr ''priority'')]), partial_bus_world)
   \<and> snd (add_task store_reads_jan31 clock_mar15 ''u1'' ''Pay rent'' None ''low'' None
        (Some [''aaaaaaaaaaaaaaaaaaaaa'']) None None partial_bus_world) = partial_bus_world
   \<and> map priority (tasks (snd (create_advanced iso_jan31 clock_mar15 ''u1'' ''Pay rent'' None
        ''urgent'' None None None None empty_store))) = [''medium'']"
proof -
  have s1: "strip ''  '' = []" and s2: "strip ''Pay rent'' \<noteq> []"
    by (simp_all add: strip_def isspace_def)
  note a = add_task_rejects_invalid_fields
      [where uid = "''u1''" and title' = "''  ''" and w = partial_bus_world
         and coerce = store_reads_jan31 and utcnow = clock_mar15 and description' = None
         and priority' = "''medium''" and due_date' = None and tags' = None
         and recurrence' = None and recurrence_rule' = None]
  note b = add_task_rejects_invalid_fields
      [where uid = "''u1''" and title' = "''Pay rent''" and w = partial_bus_world
         and coerce = store_reads_jan31 and utcnow = clock_mar15 and description' = None
         and priority' = "''urgent''" and due_date' = None and tags' = None
         and recurrence' = None and recurrence_rule' = None and s = empty_store
         and fromisoformat = iso_jan31]
  note c = add_task_rejects_invalid_fields
      [where uid = "''u1''" and title' = "''Pay rent''" and w = partial_bus_world
         and coerce = store_reads_jan31 and utcnow = clock_mar15 and description' = None
         and priority' = "''low''" and due_date' = None
         and tags' = "Some [''aaaaaaaaaaaaaaaaaaaaa'']" and ts = "[''aaaaaaaaaaaaaaaaaaaaa'']"
         and recurrence' = None and recurrence_rule' = None]
  have A: "add_task store_reads_jan31 clock_mar15 ''u1'' ''  '' None ''medium'' None None None
        None partial_bus_world
       = (Inl (MCPToolError ''VALIDATION_ERROR'' ''Task title cannot be empty''
                 [(''field'', PStr ''title'')]), partial_bus_world)"
    using a s1 by simp
  have B: "add_task store_reads_jan31 clock_mar15 ''u1'' ''Pay rent'' None ''urgent'' None None
        None None partial_bus_world
       = (Inl (MCPToolError ''VALIDATION_ERROR'' ''Priority must be one of: high, medium, low''
                 [(''field'', PStr ''priority'')]), partial_bus_world)"
    using b s2 by simp
  have C: "snd (add_task store_reads_jan31 clock_mar15 ''u1'' ''Pay rent'' None ''low'' None
        (Some [''aaaaaaaaaaaaaaaaaaaaa'']) None None partial_bus_world) = partial_bus_world"
    using c s2 by simp
  have D: "map priority (tasks (snd (create_advanced iso_jan31 clock_mar15 ''u1'' ''Pay rent''
        None ''urgent'' None None None None empty_store))) = [''medium'']"
    using b by (auto simp: empty_store_def)
  from s1 s2 A B C D show ?thesis
    by simp
qed

text \<open>
  Claim C10 at a failing input: the owner of task 1 asks to delete it. Whether the bus
  would accept the \<open>task.deleted\<close> event or not, the call answers \<open>INTERNAL_ERROR\<close>,
  the task is still in the store and nothing is on the bus: the deletion is applied on
  neither path.
\<close>

theorem delete_task_deletes_nothing:
  "delete_task str_exn ''u1'' 1 rent_world_bus_up
     = (Inl (MCPToolError ''INTERNAL_ERROR'' ''Failed to delete task''
               [(''error'', PStr (str_exn (UnboundLocalError ''select'')))]), rent_world_bus_up)
   \<and> delete_task str_exn ''u1'' 1 rent_world_bus_down
     = (Inl (MCPToolError ''INTERNAL_ERROR'' ''Failed to delete task''
               [(''error'', PStr (str_exn (UnboundLocalError ''select'')))]), rent_world_bus_down)
   \<and> select_by_id 1 (snd (delete_task str_exn ''u1'' 1 rent_world_bus_up)) = Some pay_rent
   \<and> select_by_id 1 (snd (delete_task str_exn ''u1'' 1 rent_world_bus_down)) = Some pay_rent
   \<and> user_id pay_rent = ''u1''
   \<and> bus (snd (delete_task str_exn ''u1'' 1 rent_world_bus_up)) = []
   \<and> bus (snd (delete_task str_exn ''u1'' 1 rent_world_bus_down)) = []"
  by (simp add: delete_task_def validate_user_id_def select_by_id_def rent_world_bus_up_def
        rent_world_bus_down_def pay_rent_def)

text \<open>The same for every request that passes the check of the user id.\<close>

lemma delete_task_internal_error:
  "uid \<noteq> [] \<Longrightarrow>
   delete_task str_exn uid task_id w
     = (Inl (MCPToolError ''INTERNAL_ERROR'' ''Failed to delete task''
               [(''error'', PStr (str_exn (UnboundLocalError ''select'')))]), w)"
  by (simp add: delete_task_def validate_user_id_def)

end
